theory Spec2Isabelle
  imports Main
begin

section \<open>JavaScript values and JSON text\<close>

text \<open>
  Strings are sequences of bytes: the UTF-8 encoding of the JavaScript string, which is
  what \<^verbatim>\<open>fs.writeFileSync\<close> puts into a file. A character outside ASCII is
  written as its bytes.

  The values handed to \<^verbatim>\<open>JSON.stringify\<close> by the program are strings,
  booleans, arrays and plain objects. A plain object keeps its string keys in insertion order
  (no key of this program is an array index), so it is an association list.
\<close>

datatype json =
    JString string
  | JBool bool
  | JArray "json list"
  | JObject "(string \<times> json) list"

text \<open>
  \<^verbatim>\<open>obj[k] = v\<close>: an existing key keeps its place and takes the new value,
  a new key goes to the end.
\<close>

fun obj_set :: "(string \<times> 'v) list \<Rightarrow> string \<Rightarrow> 'v \<Rightarrow> (string \<times> 'v) list" where
  "obj_set [] k v = [(k, v)]"
| "obj_set ((k', v') # kvs) k v =
     (if k' = k then (k, v) # kvs else (k', v') # obj_set kvs k v)"

text \<open>\<^verbatim>\<open>array.join(sep)\<close> on an array of strings.\<close>

fun join :: "string \<Rightarrow> string list \<Rightarrow> string" where
  "join sep [] = []"
| "join sep [x] = x"
| "join sep (x # y # ys) = x @ sep @ join sep (y # ys)"

definition hex_digit :: "nat \<Rightarrow> char" where
  "hex_digit d = (''0123456789abcdef'') ! (d mod 16)"

text \<open>
  QuoteJSONString of ECMA-262, on bytes: the quote, the backslash and the control
  characters are escaped, every other byte is kept.
\<close>

definition escape_char :: "char \<Rightarrow> string" where
  "escape_char c =
     (if c = CHR 0x08 then [CHR 0x5C, CHR ''b'']
      else if c = CHR 0x09 then [CHR 0x5C, CHR ''t'']
      else if c = CHR 0x0A then [CHR 0x5C, CHR ''n'']
      else if c = CHR 0x0C then [CHR 0x5C, CHR ''f'']
      else if c = CHR 0x0D then [CHR 0x5C, CHR ''r'']
      else if c = CHR 0x22 then [CHR 0x5C, CHR 0x22]
      else if c = CHR 0x5C then [CHR 0x5C, CHR 0x5C]
      else if of_char c < (32 :: nat)
        then [CHR 0x5C, CHR ''u'', CHR ''0'', CHR ''0'',
              hex_digit (of_char c div 16), hex_digit (of_char c)]
      else [c])"

definition quote :: "string \<Rightarrow> string" where
  "quote s = [CHR 0x22] @ concat (map escape_char s) @ [CHR 0x22]"

text \<open>
  \<^verbatim>\<open>JSON.stringify(value, null, 2)\<close>: SerializeJSONProperty with the gap of
  two spaces; the first argument is the current indentation.
\<close>

fun serialize :: "string \<Rightarrow> json \<Rightarrow> string" where
  "serialize ind (JString s) = quote s"
| "serialize ind (JBool b) = (if b then ''true'' else ''false'')"
| "serialize ind (JArray xs) =
     (if xs = [] then ''[]''
      else ''['' @ [CHR 0x0A] @ (ind @ ''  '')
           @ join ('','' @ [CHR 0x0A] @ (ind @ ''  ''))
               (map (\<lambda>x. serialize (ind @ ''  '') x) xs)
           @ [CHR 0x0A] @ ind @ '']'')"
| "serialize ind (JObject kvs) =
     (if kvs = [] then ''{}''
      else ''{'' @ [CHR 0x0A] @ (ind @ ''  '')
           @ join ('','' @ [CHR 0x0A] @ (ind @ ''  ''))
               (map (\<lambda>p. quote (fst p) @ '': '' @ serialize (ind @ ''  '') (snd p)) kvs)
           @ [CHR 0x0A] @ ind @ ''}'')"

definition JSON_stringify :: "json \<Rightarrow> string" where
  "JSON_stringify v = serialize [] v"

definition str_obj :: "(string \<times> string) list \<Rightarrow> json" where
  "str_obj kvs = JObject (map (\<lambda>p. (fst p, JString (snd p))) kvs)"

definition str_array :: "string list \<Rightarrow> json" where
  "str_array xs = JArray (map JString xs)"

section \<open>The feature catalog\<close>

record feature =
  name :: string
  description :: string
  packages :: "string list"
  devPackages :: "string list"

definition FEATURES :: "(string \<times> feature) list" where
  "FEATURES =
    [(''i18n'', \<lparr>name = ''Internationalization (i18n)'',
        description = ''Multi-language support with Inlang/Paraglide'',
        packages = [''@inlang/cli'', ''@inlang/paraglide-js''],
        devPackages = []\<rparr>),
     (''ui'', \<lparr>name = ''UI Components'',
        description = ''Radix UI + Tailwind CSS + shadcn/ui'',
        packages = [''@radix-ui/react-accordion'', ''@radix-ui/react-avatar'',
          ''@radix-ui/react-checkbox'', ''@radix-ui/react-dialog'',
          ''@radix-ui/react-dropdown-menu'', ''@radix-ui/react-label'',
          ''@radix-ui/react-popover'', ''@radix-ui/react-slot'', ''@radix-ui/react-tooltip'',
          ''class-variance-authority'', ''clsx'', ''tailwind-merge'', ''lucide-react''],
        devPackages = [''@tailwindcss/vite'', ''tailwindcss'', ''autoprefixer'']\<rparr>),
     (''state'', \<lparr>name = ''State Management'',
        description = ''Choose Jotai or Zustand for state management'',
        packages = [],
        devPackages = []\<rparr>),
     (''auth'', \<lparr>name = ''Authentication'',
        description = ''Google OAuth integration'',
        packages = [''cookie-es''],
        devPackages = [''@types/google.accounts'']\<rparr>),
     (''animation'', \<lparr>name = ''Animations'',
        description = ''Framer Motion for smooth animations'',
        packages = [''framer-motion''],
        devPackages = []\<rparr>),
     (''testing'', \<lparr>name = ''Testing Setup'',
        description = ''Vitest + Testing Library'',
        packages = [],
        devPackages = [''@testing-library/jest-dom'', ''@testing-library/react'',
          ''@testing-library/user-event'', ''@vitest/ui'', ''vitest'', ''jsdom'']\<rparr>),
     (''quality'', \<lparr>name = ''Code Quality'',
        description = ''Biome (linter/formatter) + Husky + lint-staged'',
        packages = [],
        devPackages = [''@biomejs/biome'', ''husky'', ''lint-staged'']\<rparr>),
     (''deploy'', \<lparr>name = ''Cloudflare Deployment'',
        description = ''Deploy to Cloudflare Pages using @cloudflare/vite-plugin'',
        packages = [''@cloudflare/vite-plugin''],
        devPackages = [''wrangler'']\<rparr>)]"

text \<open>
  \<^verbatim>\<open>FEATURES[key]\<close> reads a property of a plain object: an own property gives the
  feature, and a key that names a property of \<^verbatim>\<open>Object.prototype\<close> gives that
  inherited value (a function, or the prototype itself for \<^verbatim>\<open>__proto__\<close>), which
  is truthy and has no \<^verbatim>\<open>packages\<close>. Every other key gives
  \<^verbatim>\<open>undefined\<close>. The table holds, for each inherited property, what its
  \<^verbatim>\<open>.name\<close> prints in a template string.
\<close>

definition object_prototype :: "(string \<times> string) list" where
  "object_prototype =
    [(''constructor'', ''Object''),
     (''__defineGetter__'', ''__defineGetter__''),
     (''__defineSetter__'', ''__defineSetter__''),
     (''hasOwnProperty'', ''hasOwnProperty''),
     (''__lookupGetter__'', ''__lookupGetter__''),
     (''__lookupSetter__'', ''__lookupSetter__''),
     (''isPrototypeOf'', ''isPrototypeOf''),
     (''propertyIsEnumerable'', ''propertyIsEnumerable''),
     (''toString'', ''toString''),
     (''valueOf'', ''valueOf''),
     (''__proto__'', ''undefined''),
     (''toLocaleString'', ''toLocaleString'')]"

datatype property = Own feature | Inherited string | Undefined

definition FEATURES_get :: "string \<Rightarrow> property" where
  "FEATURES_get key =
     (case map_of FEATURES key of
        Some f \<Rightarrow> Own f
      | None \<Rightarrow>
          (case map_of object_prototype key of
             Some n \<Rightarrow> Inherited n
           | None \<Rightarrow> Undefined))"

datatype js_error = TypeError | ReferenceError

section \<open>The package manifest\<close>

record pkg =
  pkg_name :: string
  scripts :: "(string \<times> string) list"
  dependencies :: "(string \<times> string) list"
  devDependencies :: "(string \<times> string) list"
  lint_staged :: "(string \<times> string list) list option"
  pnpm :: "(string \<times> string) list option"

definition base_pkg :: "string \<Rightarrow> pkg" where
  "base_pkg nm =
    \<lparr>pkg_name = nm,
     scripts =
       [(''dev'', ''vite dev --port 3000''),
        (''build'', ''vite build''),
        (''start'', ''node .output/server/index.mjs'')],
     dependencies =
       [(''@tanstack/react-query'', ''^5.83.0''),
        (''@tanstack/react-router'', ''1.121.0''),
        (''@tanstack/react-router-with-query'', ''1.121.0''),
        (''react'', ''^19.1.0''),
        (''react-dom'', ''^19.1.0''),
        (''vite'', ''^6.3.5'')],
     devDependencies =
       [(''@tanstack/react-start'', ''1.121.0''),
        (''@tanstack/router-core'', ''1.121.0''),
        (''@tanstack/start-client-core'', ''1.121.0''),
        (''@types/node'', ''^24.0.0''),
        (''@types/react'', ''^19.1.7''),
        (''@types/react-dom'', ''^19.1.6''),
        (''vite-tsconfig-paths'', ''^5.1.4''),
        (''@vitejs/plugin-react'', ''^5.0.4''),
        (''typescript'', ''^5.8.3'')],
     lint_staged = None,
     pnpm = None\<rparr>"

text \<open>\<^verbatim>\<open>names.forEach((p) => { obj[p] = "latest" })\<close>\<close>

fun add_latest :: "string list \<Rightarrow> (string \<times> string) list \<Rightarrow> (string \<times> string) list" where
  "add_latest [] obj = obj"
| "add_latest (p # ps) obj = add_latest ps (obj_set obj p ''latest'')"

text \<open>
  The loop over the selected features, in the order of the array it is given. A key with
  no catalog entry is skipped by the guard \<^verbatim>\<open>if (featureConfig)\<close>; an inherited
  property passes the guard and \<^verbatim>\<open>featureConfig.packages.forEach\<close> throws a
  TypeError.
\<close>

fun add_feature_packages :: "string list \<Rightarrow> pkg \<Rightarrow> js_error + pkg" where
  "add_feature_packages [] p = Inr p"
| "add_feature_packages (f # fs) p =
     (case FEATURES_get f of
        Own featureConfig \<Rightarrow>
          add_feature_packages fs
            (p\<lparr>dependencies := add_latest (packages featureConfig) (dependencies p),
               devDependencies := add_latest (devPackages featureConfig) (devDependencies p)\<rparr>)
      | Inherited n \<Rightarrow> Inl TypeError
      | Undefined \<Rightarrow> add_feature_packages fs p)"

definition biome_prefix :: "string \<Rightarrow> string" where
  "biome_prefix packageManager = (if packageManager = ''pnpm'' then ''pnpm '' else '''')"

definition pnpm_overrides :: "(string \<times> string) list" where
  "pnpm_overrides =
    [(''@tanstack/react-start-server'', ''1.121.0''),
     (''@tanstack/start-server-core'', ''1.121.0''),
     (''@tanstack/start-plugin-core'', ''1.121.0''),
     (''@tanstack/react-start-plugin'', ''1.121.0''),
     (''@tanstack/router-plugin'', ''1.121.0''),
     (''@tanstack/router-generator'', ''1.121.0''),
     (''@tanstack/server-functions-plugin'', ''1.121.0'')]"

definition add_state :: "string list \<Rightarrow> string list \<Rightarrow> pkg \<Rightarrow> pkg" where
  "add_state features stateLibs p =
     (if ''state'' \<in> set features then
        (let p1 = (if ''jotai'' \<in> set stateLibs
                   then p\<lparr>dependencies := obj_set (dependencies p) ''jotai'' ''latest''\<rparr>
                   else p)
         in (if ''zustand'' \<in> set stateLibs
             then p1\<lparr>dependencies := obj_set (dependencies p1) ''zustand'' ''latest''\<rparr>
             else p1))
      else p)"

definition add_scripts :: "string list \<Rightarrow> string \<Rightarrow> pkg \<Rightarrow> pkg" where
  "add_scripts features packageManager p =
     (let p1 = (if ''i18n'' \<in> set features
                then p\<lparr>scripts := obj_set (scripts p) ''machine-translate''
                                   ''inlang machine translate --project project.inlang''\<rparr>
                else p);
          p2 = (if ''testing'' \<in> set features
                then p1\<lparr>scripts :=
                        obj_set (obj_set (obj_set (scripts p1) ''test'' ''vitest run'')
                                   ''test:watch'' ''vitest'')
                          ''test:ui'' ''vitest --ui''\<rparr>
                else p1)
      in (if ''quality'' \<in> set features
          then p2\<lparr>scripts :=
                    obj_set (obj_set (obj_set (scripts p2)
                        ''lint'' (biome_prefix packageManager @ ''biome check src''))
                        ''lint:fix'' (biome_prefix packageManager @ ''biome check --write src''))
                        ''prepare'' ''husky'',
                  lint_staged :=
                    Some [(''*.{js,jsx,ts,tsx}'',
                           [biome_prefix packageManager @ ''biome check src''])]\<rparr>
          else p2))"

definition add_pnpm :: "string \<Rightarrow> pkg \<Rightarrow> pkg" where
  "add_pnpm packageManager p =
     (if packageManager = ''pnpm'' then p\<lparr>pnpm := Some pnpm_overrides\<rparr> else p)"

definition generatePackageJson ::
    "string \<Rightarrow> string list \<Rightarrow> string \<Rightarrow> string list \<Rightarrow> js_error + pkg" where
  "generatePackageJson nm features packageManager stateLibs =
     (case add_feature_packages features (base_pkg nm) of
        Inl e \<Rightarrow> Inl e
      | Inr p \<Rightarrow>
          Inr (add_pnpm packageManager
                 (add_scripts features packageManager
                    (add_state features stateLibs p))))"

text \<open>The manifest as the object that is serialized, its keys in the order they were set.\<close>

definition pkg_json :: "pkg \<Rightarrow> json" where
  "pkg_json p =
     JObject
       ([(''name'', JString (pkg_name p)),
         (''private'', JBool True),
         (''sideEffects'', JBool False),
         (''type'', JString ''module''),
         (''scripts'', str_obj (scripts p)),
         (''dependencies'', str_obj (dependencies p)),
         (''devDependencies'', str_obj (devDependencies p))]
        @ (case lint_staged p of
             None \<Rightarrow> []
           | Some ls \<Rightarrow>
               [(''lint-staged'', JObject (map (\<lambda>kv. (fst kv, str_array (snd kv))) ls))])
        @ (case pnpm p of
             None \<Rightarrow> []
           | Some ov \<Rightarrow> [(''pnpm'', JObject [(''overrides'', str_obj ov)])]))"

section \<open>The file system\<close>

text \<open>
  The program touches the file system through \<^verbatim>\<open>fs.existsSync\<close>,
  \<^verbatim>\<open>fs.mkdirSync\<close> and \<^verbatim>\<open>fs.writeFileSync\<close> only. A run is
  the list of the directory creations and file writes it performs, in order; each one is
  taken to succeed. The program imports \<^verbatim>\<open>node:fs\<close>, \<^verbatim>\<open>node:path\<close>,
  \<^verbatim>\<open>node:url\<close>, \<^verbatim>\<open>kolorist\<close> and \<^verbatim>\<open>prompts\<close>, and starts
  no other program, so these two kinds of operation are all it does to the disk.
  \<^verbatim>\<open>path.join\<close> is the concatenation with a separator: the normalisation that
  \<^verbatim>\<open>node:path\<close> adds changes nothing for a working directory that does not end
  with \<^verbatim>\<open>/\<close> and for names without \<^verbatim>\<open>/\<close> and dot segments, which is
  what the prompt's validator and its choices produce.
\<close>

datatype fs_op = Mkdir string | WriteFile string string

definition path_join :: "string \<Rightarrow> string \<Rightarrow> string" where
  "path_join a b = a @ ''/'' @ b"

text \<open>
  A step of the run: what it did to the file system, and the exception it ended with, if
  any. An exception ends the run; nothing is rolled back.
\<close>

type_synonym step = "fs_op list \<times> js_error option"

fun then_step :: "step \<Rightarrow> step \<Rightarrow> step" where
  "then_step (ops, Some e) s = (ops, Some e)"
| "then_step (ops, None) (ops', r) = (ops @ ops', r)"

section \<open>Templates\<close>

text \<open>\<^verbatim>\<open>getClientCode()\<close>\<close>

definition getClientCode :: string where
  \<open>getClientCode =
    ''import { hydrateRoot } from 'react-dom/client'\<newline>'' @
    ''import { StartClient } from '@tanstack/react-start'\<newline>'' @
    ''import { createRouter } from './router'\<newline>'' @
    ''\<newline>'' @
    ''const router = createRouter()\<newline>'' @
    ''\<newline>'' @
    ''hydrateRoot(document, <StartClient router={router} />)\<newline>''\<close>

text \<open>\<^verbatim>\<open>getSSRCode()\<close>\<close>

definition getSSRCode :: string where
  \<open>getSSRCode =
    ''import { createStartHandler, defaultStreamHandler } from '@tanstack/react-start/server'\<newline>'' @
    ''import { createRouter } from './router'\<newline>'' @
    ''\<newline>'' @
    ''export default createStartHandler({\<newline>'' @
    ''  createRouter: () => createRouter(),\<newline>'' @
    ''})(defaultStreamHandler)\<newline>''\<close>

text \<open>\<^verbatim>\<open>getRouterCode()\<close>\<close>

definition getRouterCode :: string where
  \<open>getRouterCode =
    ''import { createRouter as createTanStackRouter } from '@tanstack/react-router'\<newline>'' @
    ''import { QueryClient } from '@tanstack/react-query'\<newline>'' @
    ''import { routeTree } from './routeTree.gen'\<newline>'' @
    ''\<newline>'' @
    ''export function createRouter() {\<newline>'' @
    ''  const queryClient = new QueryClient()\<newline>'' @
    ''\<newline>'' @
    ''  return createTanStackRouter({\<newline>'' @
    ''    routeTree,\<newline>'' @
    ''    context: { queryClient },\<newline>'' @
    ''    defaultPreload: 'intent',\<newline>'' @
    ''  })\<newline>'' @
    ''}\<newline>'' @
    ''\<newline>'' @
    ''declare module '@tanstack/react-router' {\<newline>'' @
    ''  interface Register {\<newline>'' @
    ''    router: ReturnType<typeof createRouter>\<newline>'' @
    ''  }\<newline>'' @
    ''}\<newline>''\<close>

text \<open>\<^verbatim>\<open>getRootRouteCode()\<close>\<close>

definition getRootRouteCode :: string where
  \<open>getRootRouteCode =
    ''import { Outlet, createRootRoute } from '@tanstack/react-router'\<newline>'' @
    ''import { QueryClientProvider, QueryClient } from '@tanstack/react-query'\<newline>'' @
    ''import '../styles/global.css'\<newline>'' @
    ''\<newline>'' @
    ''const queryClient = new QueryClient()\<newline>'' @
    ''\<newline>'' @
    ''export const Route = createRootRoute({\<newline>'' @
    ''  component: RootComponent,\<newline>'' @
    ''})\<newline>'' @
    ''\<newline>'' @
    ''function RootComponent() {\<newline>'' @
    ''  return (\<newline>'' @
    ''    <QueryClientProvider client={queryClient}>\<newline>'' @
    ''      <div className="min-h-screen bg-background">\<newline>'' @
    ''        <Outlet />\<newline>'' @
    ''      </div>\<newline>'' @
    ''    </QueryClientProvider>\<newline>'' @
    ''  )\<newline>'' @
    ''}\<newline>''\<close>

text \<open>\<^verbatim>\<open>getIndexRouteCode()\<close>; the rocket is four bytes.\<close>

definition getIndexRouteCode :: string where
  \<open>getIndexRouteCode =
    ''import { createFileRoute } from '@tanstack/react-router'\<newline>'' @
    ''\<newline>'' @
    ''export const Route = createFileRoute('/')({\<newline>'' @
    ''  component: Home,\<newline>'' @
    ''})\<newline>'' @
    ''\<newline>'' @
    ''function Home() {\<newline>'' @
    ''  return (\<newline>'' @
    ''    <div className="flex min-h-screen items-center justify-center">\<newline>'' @
    ''      <div className="text-center">\<newline>'' @
    ''        <h1 className="text-4xl font-bold mb-4">\<newline>'' @
    ''          Welcome to TanStack Start! '' @ [CHR 0xF0, CHR 0x9F, CHR 0x9A, CHR 0x80] @ ''\<newline>'' @
    ''        </h1>\<newline>'' @
    ''        <p className="text-xl text-muted-foreground">\<newline>'' @
    ''          Start building something amazing\<newline>'' @
    ''        </p>\<newline>'' @
    ''      </div>\<newline>'' @
    ''    </div>\<newline>'' @
    ''  )\<newline>'' @
    ''}\<newline>''\<close>

text \<open>\<^verbatim>\<open>getGlobalStyles()\<close>\<close>

definition getGlobalStyles :: string where
  \<open>getGlobalStyles =
    ''@tailwind base;\<newline>'' @
    ''@tailwind components;\<newline>'' @
    ''@tailwind utilities;\<newline>'' @
    ''\<newline>'' @
    ''@layer base {\<newline>'' @
    ''  :root {\<newline>'' @
    ''    --background: 0 0% 100%;\<newline>'' @
    ''    --foreground: 222.2 84% 4.9%;\<newline>'' @
    ''    --muted: 210 40% 96.1%;\<newline>'' @
    ''    --muted-foreground: 215.4 16.3% 46.9%;\<newline>'' @
    ''  }\<newline>'' @
    ''\<newline>'' @
    ''  .dark {\<newline>'' @
    ''    --background: 222.2 84% 4.9%;\<newline>'' @
    ''    --foreground: 210 40% 98%;\<newline>'' @
    ''    --muted: 217.2 32.6% 17.5%;\<newline>'' @
    ''    --muted-foreground: 215 20.2% 65.1%;\<newline>'' @
    ''  }\<newline>'' @
    ''}\<newline>'' @
    ''\<newline>'' @
    ''@layer base {\<newline>'' @
    ''  * {\<newline>'' @
    ''    @apply border-border;\<newline>'' @
    ''  }\<newline>'' @
    ''  body {\<newline>'' @
    ''    @apply bg-background text-foreground;\<newline>'' @
    ''  }\<newline>'' @
    ''}\<newline>''\<close>

text \<open>\<^verbatim>\<open>getGitignore()\<close>\<close>

definition getGitignore :: string where
  \<open>getGitignore =
    ''# Dependencies\<newline>'' @
    ''node_modules\<newline>'' @
    ''.pnp\<newline>'' @
    ''.pnp.js\<newline>'' @
    ''\<newline>'' @
    ''# Testing\<newline>'' @
    ''coverage\<newline>'' @
    ''\<newline>'' @
    ''# Production\<newline>'' @
    ''dist\<newline>'' @
    ''.output\<newline>'' @
    ''.vinxi\<newline>'' @
    ''.nitro\<newline>'' @
    ''\<newline>'' @
    ''# Misc\<newline>'' @
    ''.DS_Store\<newline>'' @
    ''*.pem\<newline>'' @
    ''.env\<newline>'' @
    ''.env.local\<newline>'' @
    ''.env.development.local\<newline>'' @
    ''.env.test.local\<newline>'' @
    ''.env.production.local\<newline>'' @
    ''\<newline>'' @
    ''# Debug\<newline>'' @
    ''npm-debug.log*\<newline>'' @
    ''yarn-debug.log*\<newline>'' @
    ''yarn-error.log*\<newline>'' @
    ''pnpm-debug.log*\<newline>'' @
    ''\<newline>'' @
    ''# IDE\<newline>'' @
    ''.vscode\<newline>'' @
    ''.idea\<newline>'' @
    ''*.swp\<newline>'' @
    ''*.swo\<newline>'' @
    ''*~\<newline>'' @
    ''\<newline>'' @
    ''# TanStack\<newline>'' @
    ''.tanstack\<newline>'' @
    ''routeTree.gen.ts\<newline>''\<close>

text \<open>The text of \<^verbatim>\<open>src/lib/utils.ts\<close>.\<close>

definition utils_ts :: string where
  \<open>utils_ts =
    ''import { type ClassValue, clsx } from "clsx"\<newline>'' @
    ''import { twMerge } from "tailwind-merge"\<newline>'' @
    ''\<newline>'' @
    ''export function cn(...inputs: ClassValue[]) {\<newline>'' @
    ''  return twMerge(clsx(inputs))\<newline>'' @
    ''}\<newline>''\<close>

text \<open>The text of \<^verbatim>\<open>src/store/jotaiStore.ts\<close>.\<close>

definition jotaiStore_ts :: string where
  \<open>jotaiStore_ts =
    ''import { atom } from 'jotai'\<newline>'' @
    ''\<newline>'' @
    ''export const countAtom = atom(0)\<newline>''\<close>

text \<open>The text of \<^verbatim>\<open>src/store/zustandStore.ts\<close>.\<close>

definition zustandStore_ts :: string where
  \<open>zustandStore_ts =
    ''import { create } from 'zustand'\<newline>'' @
    ''\<newline>'' @
    ''type CounterState = {\<newline>'' @
    ''  count: number\<newline>'' @
    ''  increment: () => void\<newline>'' @
    ''  decrement: () => void\<newline>'' @
    ''}\<newline>'' @
    ''\<newline>'' @
    ''export const useCounterStore = create<CounterState>((set) => ({\<newline>'' @
    ''  count: 0,\<newline>'' @
    ''  increment: () => set((state) => ({ count: state.count + 1 })),\<newline>'' @
    ''  decrement: () => set((state) => ({ count: state.count - 1 })),\<newline>'' @
    ''}))\<newline>''\<close>

text \<open>The text of \<^verbatim>\<open>src/services/auth.ts\<close>.\<close>

definition auth_ts :: string where
  \<open>auth_ts =
    ''// Google OAuth setup\<newline>'' @
    ''export const initGoogleAuth = () => {\<newline>'' @
    ''  // Add your Google OAuth initialization here\<newline>'' @
    ''  console.log('Google Auth initialized')\<newline>'' @
    ''}\<newline>''\<close>

text \<open>The text of \<^verbatim>\<open>vitest.config.ts\<close>.\<close>

definition vitest_config_ts :: string where
  \<open>vitest_config_ts =
    ''import { defineConfig } from 'vitest/config'\<newline>'' @
    ''import react from '@vitejs/plugin-react'\<newline>'' @
    ''import tsconfigPaths from 'vite-tsconfig-paths'\<newline>'' @
    ''\<newline>'' @
    ''export default defineConfig({\<newline>'' @
    ''  plugins: [react(), tsconfigPaths()],\<newline>'' @
    ''  test: {\<newline>'' @
    ''    globals: true,\<newline>'' @
    ''    environment: 'jsdom',\<newline>'' @
    ''    setupFiles: './tests/setup.ts',\<newline>'' @
    ''  },\<newline>'' @
    ''})\<newline>''\<close>

text \<open>The text of \<^verbatim>\<open>tests/setup.ts\<close>.\<close>

definition tests_setup_ts :: string where
  \<open>tests_setup_ts =
    ''import '@testing-library/jest-dom'\<newline>''\<close>

text \<open>The text of \<^verbatim>\<open>.editorconfig\<close>.\<close>

definition editorconfig :: string where
  \<open>editorconfig =
    ''root = true\<newline>'' @
    ''\<newline>'' @
    ''[*]\<newline>'' @
    ''indent_style = space\<newline>'' @
    ''indent_size = 2\<newline>'' @
    ''end_of_line = lf\<newline>'' @
    ''charset = utf-8\<newline>'' @
    ''trim_trailing_whitespace = true\<newline>'' @
    ''insert_final_newline = true\<newline>''\<close>

text \<open>The text of \<^verbatim>\<open>tailwind.config.mjs\<close>.\<close>

definition tailwind_config_mjs :: string where
  \<open>tailwind_config_mjs =
    ''/** @type {import('tailwindcss').Config} */\<newline>'' @
    ''export default {\<newline>'' @
    ''  content: ['./src/**/*.{js,jsx,ts,tsx}'],\<newline>'' @
    ''  theme: {\<newline>'' @
    ''    extend: {},\<newline>'' @
    ''  },\<newline>'' @
    ''}\<newline>''\<close>

text \<open>The text of \<^verbatim>\<open>.env.example\<close>.\<close>

definition env_example :: string where
  \<open>env_example =
    ''VITE_APP_TITLE="My TanStack App"''\<close>

definition vite_config_1 :: string where
  \<open>vite_config_1 =
    ''import { defineConfig } from 'vite'\<newline>'' @
    ''import { tanstackStart } from '@tanstack/react-start/plugin/vite'\<newline>'' @
    ''import tsconfigPaths from 'vite-tsconfig-paths'\<newline>''\<close>

definition vite_config_2 :: string where
  \<open>vite_config_2 =
    ''\<newline>'' @
    ''\<newline>'' @
    ''export default defineConfig({\<newline>'' @
    ''  plugins: [\<newline>'' @
    ''    tsconfigPaths({\<newline>'' @
    ''      projects: ['./tsconfig.json'],\<newline>'' @
    ''    }),\<newline>'' @
    ''    tanstackStart(),\<newline>'' @
    ''    ''\<close>

definition vite_config_3 :: string where
  \<open>vite_config_3 =
    ''\<newline>'' @
    ''  ],\<newline>'' @
    ''  ''\<close>

definition vite_config_4 :: string where
  \<open>vite_config_4 =
    ''\<newline>'' @
    ''});\<newline>''\<close>

definition vite_deploy_import :: string where
  \<open>vite_deploy_import =
    ''import cloudflare from '@cloudflare/vite-plugin'' @ [CHR 0x27]\<close>

definition vite_deploy_plugin :: string where
  \<open>vite_deploy_plugin =
    ''cloudflare(),''\<close>

definition vite_deploy_build :: string where
  \<open>vite_deploy_build =
    ''build: {\<newline>'' @
    ''    rollupOptions: {\<newline>'' @
    ''      onwarn(warning, warn) {\<newline>'' @
    ''        if (warning.code === 'MODULE_LEVEL_DIRECTIVE') {\<newline>'' @
    ''          return;\<newline>'' @
    ''        }\<newline>'' @
    ''        warn(warning);\<newline>'' @
    ''      },\<newline>'' @
    ''      onLog(level, log, handler) {\<newline>'' @
    ''        if (log.code === 'MODULE_LEVEL_DIRECTIVE') {\<newline>'' @
    ''          return;\<newline>'' @
    ''        }\<newline>'' @
    ''        handler(level, log);\<newline>'' @
    ''      },\<newline>'' @
    ''    },\<newline>'' @
    ''  },''\<close>

text \<open>
  \<^verbatim>\<open>getViteConfig(features)\<close>: the template with its three
  \<^verbatim>\<open>features.includes('deploy')\<close> slots.
\<close>

definition getViteConfig :: "string list \<Rightarrow> string" where
  "getViteConfig features =
     vite_config_1
     @ (if ''deploy'' \<in> set features then vite_deploy_import else [])
     @ vite_config_2
     @ (if ''deploy'' \<in> set features then vite_deploy_plugin else [])
     @ vite_config_3
     @ (if ''deploy'' \<in> set features then vite_deploy_build else [])
     @ vite_config_4"

section \<open>Scaffolding\<close>

definition createBaseStructure :: "string \<Rightarrow> fs_op list" where
  "createBaseStructure root =
     map (\<lambda>dir. Mkdir (path_join root dir))
       [''src'', ''src/routes'', ''src/components'', ''src/utils'', ''src/styles'', ''public'']
     @ [WriteFile (path_join root ''src/client.tsx'') getClientCode,
        WriteFile (path_join root ''src/server.ts'') getSSRCode,
        WriteFile (path_join root ''src/router.tsx'') getRouterCode,
        WriteFile (path_join root ''src/routes/__root.tsx'') getRootRouteCode,
        WriteFile (path_join root ''src/routes/index.tsx'') getIndexRouteCode,
        WriteFile (path_join root ''src/styles/global.css'') getGlobalStyles]"

subsection \<open>i18n\<close>

definition settings_json :: "string list \<Rightarrow> string \<Rightarrow> json" where
  "settings_json languages baseLocale =
     JObject
       [(''$schema'', JString ''https://inlang.com/schema/project-settings''),
        (''baseLocale'', JString baseLocale),
        (''locales'', str_array languages),
        (''modules'', str_array
           [''https://cdn.jsdelivr.net/npm/@inlang/plugin-message-format@4/dist/index.js'',
            ''https://cdn.jsdelivr.net/npm/@inlang/plugin-m-function-matcher@2/dist/index.js'']),
        (''plugin.inlang.messageFormat'',
           str_obj [(''pathPattern'', ''./messages/{locale}.json'')])]"

text \<open>The two Vietnamese phrases, in UTF-8.\<close>

definition vi_welcome :: string where
  \<open>vi_welcome =
    ''Ch'' @ [CHR 0xC3, CHR 0xA0] @ ''o m'' @ [CHR 0xE1, CHR 0xBB, CHR 0xAB] @ ''ng '' @ [CHR 0xC4, CHR 0x91, CHR 0xE1, CHR 0xBA, CHR 0xBF] @ ''n v'' @ [CHR 0xE1, CHR 0xBB, CHR 0x9B] @ ''i '' @ [CHR 0xE1, CHR 0xBB, CHR 0xA9] @ ''ng d'' @ [CHR 0xE1, CHR 0xBB, CHR 0xA5] @ ''ng m'' @ [CHR 0xE1, CHR 0xBB, CHR 0x9B] @ ''i c'' @ [CHR 0xE1, CHR 0xBB, CHR 0xA7] @ ''a b'' @ [CHR 0xE1, CHR 0xBA, CHR 0xA1] @ ''n!''\<close>

definition vi_description :: string where
  \<open>vi_description =
    ''B'' @ [CHR 0xE1, CHR 0xBA, CHR 0xAF] @ ''t '' @ [CHR 0xC4, CHR 0x91, CHR 0xE1, CHR 0xBA, CHR 0xA7] @ ''u x'' @ [CHR 0xC3, CHR 0xA2] @ ''y d'' @ [CHR 0xE1, CHR 0xBB, CHR 0xB1] @ ''ng '' @ [CHR 0xC4, CHR 0x91] @ ''i'' @ [CHR 0xE1, CHR 0xBB, CHR 0x81] @ ''u g'' @ [CHR 0xC3, CHR 0xAC] @ '' '' @ [CHR 0xC4, CHR 0x91, CHR 0xC3, CHR 0xB3] @ '' tuy'' @ [CHR 0xE1, CHR 0xBB, CHR 0x87] @ ''t v'' @ [CHR 0xE1, CHR 0xBB, CHR 0x9D] @ ''i''\<close>

definition welcome_phrase :: "string \<Rightarrow> string" where
  "welcome_phrase lang =
     (if lang = ''en'' then ''Welcome to your new app!''
      else if lang = ''vi'' then vi_welcome
      else ''Welcome to your new app!'')"

definition description_phrase :: "string \<Rightarrow> string" where
  "description_phrase lang =
     (if lang = ''en'' then ''Start building something amazing''
      else if lang = ''vi'' then vi_description
      else ''Start building something amazing'')"

definition message_json :: "string \<Rightarrow> json" where
  "message_json lang =
     JObject [(''welcome'', JString (welcome_phrase lang)),
              (''description'', JString (description_phrase lang))]"

definition createI18nSetup :: "string \<Rightarrow> string list \<Rightarrow> string \<Rightarrow> fs_op list" where
  "createI18nSetup root languages baseLocale =
     (let inlangDir = path_join root ''project.inlang'';
          messagesDir = path_join root ''messages''
      in [Mkdir inlangDir,
          WriteFile (path_join inlangDir ''settings.json'')
            (JSON_stringify (settings_json languages baseLocale)),
          Mkdir messagesDir]
         @ map (\<lambda>lang. WriteFile (path_join messagesDir (lang @ ''.json''))
                           (JSON_stringify (message_json lang)))
             languages)"

subsection \<open>The other features\<close>

definition components_json :: json where
  "components_json =
     JObject
       [(''$schema'', JString ''https://ui.shadcn.com/schema.json''),
        (''style'', JString ''default''),
        (''rsc'', JBool False),
        (''tsx'', JBool True),
        (''tailwind'', JObject
           [(''config'', JString ''tailwind.config.mjs''),
            (''css'', JString ''src/styles/global.css''),
            (''baseColor'', JString ''slate''),
            (''cssVariables'', JBool True)]),
        (''aliases'', str_obj [(''components'', ''@/components''), (''utils'', ''@/utils'')])]"

definition createUISetup :: "string \<Rightarrow> fs_op list" where
  "createUISetup root =
     [WriteFile (path_join root ''components.json'') (JSON_stringify components_json),
      Mkdir (path_join root ''src/lib''),
      WriteFile (path_join root ''src/lib/utils.ts'') utils_ts]"

definition createStateSetup :: "string \<Rightarrow> string list \<Rightarrow> fs_op list" where
  "createStateSetup root stateLibs =
     [Mkdir (path_join root ''src/store'')]
     @ (if ''jotai'' \<in> set stateLibs
        then [WriteFile (path_join root ''src/store/jotaiStore.ts'') jotaiStore_ts] else [])
     @ (if ''zustand'' \<in> set stateLibs
        then [WriteFile (path_join root ''src/store/zustandStore.ts'') zustandStore_ts] else [])"

definition createAuthSetup :: "string \<Rightarrow> fs_op list" where
  "createAuthSetup root =
     [Mkdir (path_join root ''src/services''),
      WriteFile (path_join root ''src/services/auth.ts'') auth_ts]"

definition createTestingSetup :: "string \<Rightarrow> fs_op list" where
  "createTestingSetup root =
     [WriteFile (path_join root ''vitest.config.ts'') vitest_config_ts,
      Mkdir (path_join root ''tests''),
      WriteFile (path_join root ''tests/setup.ts'') tests_setup_ts]"

definition biome_json :: json where
  "biome_json =
     JObject
       [(''$schema'', JString ''https://biomejs.dev/schemas/1.9.4/schema.json''),
        (''vcs'', JObject
           [(''enabled'', JBool True),
            (''clientKind'', JString ''git''),
            (''useIgnoreFile'', JBool True)]),
        (''files'', JObject
           [(''ignoreUnknown'', JBool False),
            (''ignore'', JArray [])]),
        (''formatter'', JObject
           [(''enabled'', JBool True),
            (''indentStyle'', JString ''space'')]),
        (''organizeImports'', JObject [(''enabled'', JBool True)]),
        (''linter'', JObject
           [(''enabled'', JBool True),
            (''rules'', JObject [(''recommended'', JBool True)])])]"

definition createQualitySetup :: "string \<Rightarrow> fs_op list" where
  "createQualitySetup root =
     [WriteFile (path_join root ''biome.json'') (JSON_stringify biome_json),
      WriteFile (path_join root ''.editorconfig'') editorconfig]"

subsection \<open>Configuration files\<close>

definition tsconfig_json :: "string list \<Rightarrow> json" where
  "tsconfig_json features =
     JObject
       [(''include'', str_array [''**/*.ts'', ''**/*.tsx'']),
        (''compilerOptions'', JObject
           [(''strict'', JBool True),
            (''esModuleInterop'', JBool True),
            (''jsx'', JString ''react-jsx''),
            (''module'', JString ''ESNext''),
            (''moduleResolution'', JString ''Bundler''),
            (''lib'', str_array [''DOM'', ''DOM.Iterable'', ''ES2023'']),
            (''isolatedModules'', JBool True),
            (''resolveJsonModule'', JBool True),
            (''skipLibCheck'', JBool True),
            (''target'', JString ''ES2022''),
            (''allowJs'', JBool True),
            (''forceConsistentCasingInFileNames'', JBool True),
            (''baseUrl'', JString ''.''),
            (''paths'', JObject [(''@/*'', str_array [''./src/*''])]),
            (''types'', str_array
               (if ''testing'' \<in> set features
                then [''vitest/globals'', ''@testing-library/jest-dom'']
                else [])),
            (''noEmit'', JBool True)])]"

text \<open>
  \<^verbatim>\<open>createConfigFiles(root, features)\<close>. The object written to
  \<^verbatim>\<open>wrangler.json\<close> reads \<^verbatim>\<open>projectName\<close>, which is neither a
  parameter nor a local of this function, nor a binding of the module (it is a local of
  \<^verbatim>\<open>init\<close>): evaluating the argument throws a ReferenceError before
  \<^verbatim>\<open>fs.writeFileSync\<close> is called.
\<close>

definition createConfigFiles :: "string \<Rightarrow> string list \<Rightarrow> step" where
  "createConfigFiles root features =
     ([WriteFile (path_join root ''tsconfig.json'') (JSON_stringify (tsconfig_json features)),
       WriteFile (path_join root ''vite.config.ts'') (getViteConfig features)]
      @ (if ''ui'' \<in> set features
         then [WriteFile (path_join root ''tailwind.config.mjs'') tailwind_config_mjs] else [])
      @ [WriteFile (path_join root ''.env.example'') env_example],
      if ''deploy'' \<in> set features then Some ReferenceError else None)"

subsection \<open>README\<close>

definition run_prefix :: "string \<Rightarrow> string" where
  "run_prefix packageManager = (if packageManager = ''npm'' then ''run '' else [])"

text \<open>
  The list of features at the top of the README, one line per selected key with a check
  mark (three bytes) and \<^verbatim>\<open>FEATURES[f].name\<close>: reading \<^verbatim>\<open>.name\<close> of
  \<^verbatim>\<open>undefined\<close> throws a TypeError.
\<close>

fun feature_lines :: "string list \<Rightarrow> js_error + string list" where
  "feature_lines [] = Inr []"
| "feature_lines (f # fs) =
     (case FEATURES_get f of
        Undefined \<Rightarrow> Inl TypeError
      | Own c \<Rightarrow>
          (case feature_lines fs of
             Inl e \<Rightarrow> Inl e
           | Inr ls \<Rightarrow> Inr ((''- '' @ [CHR 0xE2, CHR 0x9C, CHR 0x85] @ '' '' @ name c) # ls))
      | Inherited n \<Rightarrow>
          (case feature_lines fs of
             Inl e \<Rightarrow> Inl e
           | Inr ls \<Rightarrow> Inr ((''- '' @ [CHR 0xE2, CHR 0x9C, CHR 0x85] @ '' '' @ n) # ls)))"

definition readme_text :: "string \<Rightarrow> string list \<Rightarrow> string list \<Rightarrow> string \<Rightarrow> string" where
  \<open>readme_text projectName featureLines features packageManager =
    ''# '' @ projectName @ ''\<newline>'' @
    ''\<newline>'' @
    ''A modern web application built with TanStack Start.\<newline>'' @
    ''\<newline>'' @
    ''## Features\<newline>'' @
    ''\<newline>'' @
    join ''\<newline>'' featureLines @ ''\<newline>'' @
    ''\<newline>'' @
    ''## Getting Started\<newline>'' @
    ''\<newline>'' @
    ''1. Install dependencies:\<newline>'' @
    ''```bash\<newline>'' @
    packageManager @ '' install\<newline>'' @
    ''```\<newline>'' @
    ''\<newline>'' @
    ''2. Run the development server:\<newline>'' @
    ''```bash\<newline>'' @
    packageManager @ '' '' @ run_prefix packageManager @ ''dev\<newline>'' @
    ''```\<newline>'' @
    ''\<newline>'' @
    ''3. Open [http://localhost:3000](http://localhost:3000)\<newline>'' @
    ''\<newline>'' @
    ''## Project Structure\<newline>'' @
    ''\<newline>'' @
    ''```\<newline>'' @
    projectName @ ''/\<newline>'' @
    [CHR 0xE2, CHR 0x94, CHR 0x9C, CHR 0xE2, CHR 0x94, CHR 0x80, CHR 0xE2, CHR 0x94, CHR 0x80] @ '' src/\<newline>'' @
    [CHR 0xE2, CHR 0x94, CHR 0x82] @ ''   '' @ [CHR 0xE2, CHR 0x94, CHR 0x9C, CHR 0xE2, CHR 0x94, CHR 0x80, CHR 0xE2, CHR 0x94, CHR 0x80] @ '' routes/        # Route components\<newline>'' @
    [CHR 0xE2, CHR 0x94, CHR 0x82] @ ''   '' @ [CHR 0xE2, CHR 0x94, CHR 0x9C, CHR 0xE2, CHR 0x94, CHR 0x80, CHR 0xE2, CHR 0x94, CHR 0x80] @ '' components/    # Reusable components\<newline>'' @
    [CHR 0xE2, CHR 0x94, CHR 0x82] @ ''   '' @ [CHR 0xE2, CHR 0x94, CHR 0x9C, CHR 0xE2, CHR 0x94, CHR 0x80, CHR 0xE2, CHR 0x94, CHR 0x80] @ '' utils/         # Utility functions\<newline>'' @
    [CHR 0xE2, CHR 0x94, CHR 0x82] @ ''   '' @ [CHR 0xE2, CHR 0x94, CHR 0x94, CHR 0xE2, CHR 0x94, CHR 0x80, CHR 0xE2, CHR 0x94, CHR 0x80] @ '' styles/        # Global styles\<newline>'' @
    [CHR 0xE2, CHR 0x94, CHR 0x9C, CHR 0xE2, CHR 0x94, CHR 0x80, CHR 0xE2, CHR 0x94, CHR 0x80] @ '' public/            # Static assets\<newline>'' @
    [CHR 0xE2, CHR 0x94, CHR 0x94, CHR 0xE2, CHR 0x94, CHR 0x80, CHR 0xE2, CHR 0x94, CHR 0x80] @ '' package.json\<newline>'' @
    ''```\<newline>'' @
    ''\<newline>'' @
    ''## Available Scripts\<newline>'' @
    ''\<newline>'' @
    ''- `'' @ packageManager @ '' '' @ run_prefix packageManager @ ''dev` - Start development server\<newline>'' @
    ''- `'' @ packageManager @ '' '' @ run_prefix packageManager @ ''build` - Build for production\<newline>'' @
    ''- `'' @ packageManager @ '' '' @ run_prefix packageManager @ ''start` - Start production server\<newline>'' @
    (if ''testing'' \<in> set features
     then ''- `'' @ packageManager @ '' '' @ run_prefix packageManager @ ''test` - Run tests''
     else '''') @ ''\<newline>'' @
    (if ''quality'' \<in> set features
     then ''- `'' @ packageManager @ '' '' @ run_prefix packageManager @ ''lint` - Lint code''
     else '''') @ ''\<newline>'' @
    ''\<newline>'' @
    ''## Learn More\<newline>'' @
    ''\<newline>'' @
    ''- [TanStack Start Documentation](https://tanstack.com/start)\<newline>'' @
    ''- [React Documentation](https://react.dev)\<newline>'' @
    (if ''ui'' \<in> set features
     then ''- [Tailwind CSS](https://tailwindcss.com)\<newline>- [Radix UI](https://radix-ui.com)''
     else '''') @ ''\<newline>'' @
    (if ''i18n'' \<in> set features then ''- [Inlang](https://inlang.com)'' else '''') @ ''\<newline>'' @
    ''\<newline>'' @
    ''## License\<newline>'' @
    ''\<newline>'' @
    ''MIT\<newline>''\<close>

definition createReadme :: "string \<Rightarrow> string \<Rightarrow> string list \<Rightarrow> string \<Rightarrow> step" where
  "createReadme root projectName features packageManager =
     (case feature_lines features of
        Inl e \<Rightarrow> ([], Some e)
      | Inr featureLines \<Rightarrow>
          ([WriteFile (path_join root ''README.md'')
              (readme_text projectName featureLines features packageManager)], None))"

section \<open>The run\<close>

text \<open>
  What \<^verbatim>\<open>prompts\<close> resolves to. A question whose type is
  \<^verbatim>\<open>null\<close> is not asked and leaves its key undefined; cancelling a question
  calls \<^verbatim>\<open>onCancel\<close>, which throws.
\<close>

record answers =
  ans_projectName :: string
  ans_packageManager :: string
  ans_features :: "string list option"
  ans_stateLibs :: "string list option"
  ans_languages :: "string list option"
  ans_baseLocale :: "string option"
  ans_initGit :: bool

datatype prompt_outcome = Cancelled string | Answered answers

definition or_default :: "'a \<Rightarrow> 'a option \<Rightarrow> 'a" where
  "or_default d x = (case x of None \<Rightarrow> d | Some v \<Rightarrow> v)"

definition feature_setup ::
    "string \<Rightarrow> string list \<Rightarrow> string list \<Rightarrow> string \<Rightarrow> string list \<Rightarrow> fs_op list" where
  "feature_setup root features languages baseLocale stateLibs =
     (if ''i18n'' \<in> set features then createI18nSetup root languages baseLocale else [])
     @ (if ''ui'' \<in> set features then createUISetup root else [])
     @ (if ''state'' \<in> set features then createStateSetup root stateLibs else [])
     @ (if ''auth'' \<in> set features then createAuthSetup root else [])
     @ (if ''testing'' \<in> set features then createTestingSetup root else [])
     @ (if ''quality'' \<in> set features then createQualitySetup root else [])"

text \<open>The body of \<^verbatim>\<open>init\<close> from the creation of the project directory on.\<close>

definition scaffold :: "string \<Rightarrow> answers \<Rightarrow> step" where
  "scaffold cwd result =
     (let projectName = ans_projectName result;
          packageManager = ans_packageManager result;
          features = or_default [] (ans_features result);
          languages = or_default [''en''] (ans_languages result);
          baseLocale = or_default ''en'' (ans_baseLocale result);
          initGit = ans_initGit result;
          stateLibs = or_default [''jotai''] (ans_stateLibs result);
          root = path_join cwd projectName
      in then_step ([Mkdir root], None)
        (then_step
           (case generatePackageJson projectName features packageManager stateLibs of
              Inl e \<Rightarrow> ([], Some e)
            | Inr packageJson \<Rightarrow>
                ([WriteFile (path_join root ''package.json'')
                    (JSON_stringify (pkg_json packageJson))], None))
        (then_step (createBaseStructure root, None)
        (then_step (feature_setup root features languages baseLocale stateLibs, None)
        (then_step (createConfigFiles root features)
        (then_step (createReadme root projectName features packageManager)
           (if initGit then [WriteFile (path_join root ''.gitignore'') getGitignore] else [],
            None)))))))"

record run =
  exit_status :: nat
  fs_ops :: "fs_op list"

text \<open>
  \<^verbatim>\<open>init().catch(...)\<close>: the whole program, given what the prompt resolved to, the
  working directory and the directories that exist. A cancelled prompt and an existing target
  leave through \<^verbatim>\<open>process.exit(1)\<close>; an exception of the scaffolding is caught at
  the top and leaves the same way; otherwise the process ends with status 0.
\<close>

definition init :: "prompt_outcome \<Rightarrow> string \<Rightarrow> (string \<Rightarrow> bool) \<Rightarrow> run" where
  "init outcome cwd existsSync =
     (case outcome of
        Cancelled question \<Rightarrow> \<lparr>exit_status = 1, fs_ops = []\<rparr>
      | Answered result \<Rightarrow>
          (if existsSync (path_join cwd (ans_projectName result))
           then \<lparr>exit_status = 1, fs_ops = []\<rparr>
           else (case scaffold cwd result of
                   (ops, None) \<Rightarrow> \<lparr>exit_status = 0, fs_ops = ops\<rparr>
                 | (ops, Some e) \<Rightarrow> \<lparr>exit_status = 1, fs_ops = ops\<rparr>)))"

section \<open>Notions used in the statements\<close>

text \<open>Reading a property of an object value, \<^verbatim>\<open>obj[k]\<close>.\<close>

fun json_field :: "json \<Rightarrow> string \<Rightarrow> json option" where
  "json_field (JObject kvs) k = map_of kvs k"
| "json_field _ k = None"

text \<open>The packages a feature key contributes through the catalog.\<close>

definition feature_packages :: "string \<Rightarrow> string list" where
  "feature_packages f = (case FEATURES_get f of Own c \<Rightarrow> packages c | _ \<Rightarrow> [])"

definition feature_devPackages :: "string \<Rightarrow> string list" where
  "feature_devPackages f = (case FEATURES_get f of Own c \<Rightarrow> devPackages c | _ \<Rightarrow> [])"

text \<open>The paths a list of operations writes files to, in order.\<close>

fun written_paths :: "fs_op list \<Rightarrow> string list" where
  "written_paths [] = []"
| "written_paths (Mkdir p # ops) = written_paths ops"
| "written_paths (WriteFile p c # ops) = p # written_paths ops"

text \<open>
  The steps of \<^const>\<open>scaffold\<close> before the one that depends on the answer to the git
  question.
\<close>

definition before_git :: "string \<Rightarrow> answers \<Rightarrow> step" where
  "before_git cwd result =
     (let projectName = ans_projectName result;
          packageManager = ans_packageManager result;
          features = or_default [] (ans_features result);
          languages = or_default [''en''] (ans_languages result);
          baseLocale = or_default ''en'' (ans_baseLocale result);
          stateLibs = or_default [''jotai''] (ans_stateLibs result);
          root = path_join cwd projectName
      in then_step ([Mkdir root], None)
        (then_step
           (case generatePackageJson projectName features packageManager stateLibs of
              Inl e \<Rightarrow> ([], Some e)
            | Inr packageJson \<Rightarrow>
                ([WriteFile (path_join root ''package.json'')
                    (JSON_stringify (pkg_json packageJson))], None))
        (then_step (createBaseStructure root, None)
        (then_step (feature_setup root features languages baseLocale stateLibs, None)
        (then_step (createConfigFiles root features)
           (createReadme root projectName features packageManager))))))"

text \<open>Answers used as concrete inputs.\<close>

definition demo_answers :: "string \<Rightarrow> string list \<Rightarrow> bool \<Rightarrow> answers" where
  "demo_answers packageManager features initGit =
     \<lparr>ans_projectName = ''demo'', ans_packageManager = packageManager,
      ans_features = Some features, ans_stateLibs = None, ans_languages = None,
      ans_baseLocale = None, ans_initGit = initGit\<rparr>"

text \<open>
  What a selection adds to the base manifest: the packages of its catalog features and of
  the chosen state libraries, and the script entries of its features.
\<close>

definition selected_packages :: "string list \<Rightarrow> string list \<Rightarrow> string list" where
  "selected_packages features stateLibs =
     concat (map feature_packages features)
     @ (if ''state'' \<in> set features
        then filter (\<lambda>lib. lib \<in> set stateLibs) [''jotai'', ''zustand''] else [])"

definition selected_devPackages :: "string list \<Rightarrow> string list" where
  "selected_devPackages features = concat (map feature_devPackages features)"

definition i18n_scripts :: "(string \<times> string) list" where
  "i18n_scripts = [(''machine-translate'', ''inlang machine translate --project project.inlang'')]"

definition testing_scripts :: "(string \<times> string) list" where
  "testing_scripts =
     [(''test'', ''vitest run''), (''test:watch'', ''vitest''), (''test:ui'', ''vitest --ui'')]"

definition quality_scripts :: "string \<Rightarrow> (string \<times> string) list" where
  "quality_scripts packageManager =
     [(''lint'', biome_prefix packageManager @ ''biome check src''),
      (''lint:fix'', biome_prefix packageManager @ ''biome check --write src''),
      (''prepare'', ''husky'')]"

definition selected_scripts :: "string list \<Rightarrow> string \<Rightarrow> (string \<times> string) list" where
  "selected_scripts features packageManager =
     (if ''i18n'' \<in> set features then i18n_scripts else [])
     @ (if ''testing'' \<in> set features then testing_scripts else [])
     @ (if ''quality'' \<in> set features then quality_scripts packageManager else [])"

text \<open>A disk on which no path exists yet.\<close>

definition fresh_disk :: "string \<Rightarrow> bool" where
  "fresh_disk path = False"



text \<open>
  The path of the message file of a locale, and the texts expected in
  \<^verbatim>\<open>messages/en.json\<close> and \<^verbatim>\<open>messages/vi.json\<close>.
\<close>

definition message_path :: "string \<Rightarrow> string \<Rightarrow> string" where
  "message_path root lang = path_join (path_join root ''messages'') (lang @ ''.json'')"

definition en_json_text :: string where
  \<open>en_json_text =
    ''{\<newline>'' @
    ''  "welcome": "Welcome to your new app!",\<newline>'' @
    ''  "description": "Start building something amazing"\<newline>'' @
    ''}''\<close>

definition vi_json_text :: string where
  \<open>vi_json_text =
    ''{\<newline>'' @
    ''  "welcome": "Ch'' @ [CHR 0xC3, CHR 0xA0] @ ''o m'' @ [CHR 0xE1, CHR 0xBB, CHR 0xAB] @ ''ng '' @ [CHR 0xC4, CHR 0x91, CHR 0xE1, CHR 0xBA, CHR 0xBF] @ ''n v'' @ [CHR 0xE1, CHR 0xBB, CHR 0x9B] @ ''i '' @ [CHR 0xE1, CHR 0xBB, CHR 0xA9] @ ''ng d'' @ [CHR 0xE1, CHR 0xBB, CHR 0xA5] @ ''ng m'' @ [CHR 0xE1, CHR 0xBB, CHR 0x9B] @ ''i c'' @ [CHR 0xE1, CHR 0xBB, CHR 0xA7] @ ''a b'' @ [CHR 0xE1, CHR 0xBA, CHR 0xA1] @ ''n!",\<newline>'' @
    ''  "description": "B'' @ [CHR 0xE1, CHR 0xBA, CHR 0xAF] @ ''t '' @ [CHR 0xC4, CHR 0x91, CHR 0xE1, CHR 0xBA, CHR 0xA7] @ ''u x'' @ [CHR 0xC3, CHR 0xA2] @ ''y d'' @ [CHR 0xE1, CHR 0xBB, CHR 0xB1] @ ''ng '' @ [CHR 0xC4, CHR 0x91] @ ''i'' @ [CHR 0xE1, CHR 0xBB, CHR 0x81] @ ''u g'' @ [CHR 0xC3, CHR 0xAC] @ '' '' @ [CHR 0xC4, CHR 0x91, CHR 0xC3, CHR 0xB3] @ '' tuy'' @ [CHR 0xE1, CHR 0xBB, CHR 0x87] @ ''t v'' @ [CHR 0xE1, CHR 0xBB, CHR 0x9D] @ ''i"\<newline>'' @
    ''}''\<close>

text \<open>A name without a path separator.\<close>

definition plain_name :: "string \<Rightarrow> bool" where
  "plain_name s \<longleftrightarrow> CHR ''/'' \<notin> set s \<and> CHR 0x5C \<notin> set s"

text \<open>The answers of the example: i18n alone, with English and Vietnamese.\<close>

definition i18n_answers :: answers where
  "i18n_answers =
     \<lparr>ans_projectName = ''demo'', ans_packageManager = ''npm'',
      ans_features = Some [''i18n''], ans_stateLibs = None,
      ans_languages = Some [''en'', ''vi''], ans_baseLocale = Some ''en'',
      ans_initGit = False\<rparr>"

text \<open>
  The files written by the run for given answers, in a working directory where nothing
  exists yet.
\<close>

definition run_written :: "answers \<Rightarrow> string \<Rightarrow> string list" where
  "run_written result cwd = written_paths (fs_ops (init (Answered result) cwd fresh_disk))"




section \<open>Objects as association lists\<close>

lemma map_of_obj_set: "map_of (obj_set al k v) = (map_of al)(k \<mapsto> v)"
  by (induction al k v rule: obj_set.induct) auto

lemma keys_obj_set: "fst ` set (obj_set al k v) = insert k (fst ` set al)"
  by (induction al k v rule: obj_set.induct) auto

lemma map_of_add_latest:
  "map_of (add_latest ps al) k = (if k \<in> set ps then Some ''latest'' else map_of al k)"
  by (induction ps arbitrary: al) (auto simp: map_of_obj_set)

section \<open>The feature loop\<close>

lemma add_feature_packages_Inr:
  assumes "add_feature_packages fs p = Inr p'"
  shows "map_of (dependencies p') k =
           (if k \<in> (\<Union>f\<in>set fs. set (feature_packages f)) then Some ''latest''
            else map_of (dependencies p) k)"
    and "map_of (devDependencies p') k =
           (if k \<in> (\<Union>f\<in>set fs. set (feature_devPackages f)) then Some ''latest''
            else map_of (devDependencies p) k)"
    and "scripts p' = scripts p" and "pkg_name p' = pkg_name p"
    and "lint_staged p' = lint_staged p" and "pnpm p' = pnpm p"
  using assms
  by (induction fs arbitrary: p)
     (auto simp: feature_packages_def feature_devPackages_def map_of_add_latest
           split: property.splits)

lemma FEATURES_get_catalog:
  "f \<in> fst ` set FEATURES \<Longrightarrow> \<exists>c. FEATURES_get f = Own c"
  by (auto simp: FEATURES_get_def map_of_eq_None_iff split: option.splits)

lemma add_feature_packages_total:
  "set fs \<subseteq> fst ` set FEATURES \<Longrightarrow> \<exists>p'. add_feature_packages fs p = Inr p'"
proof (induction fs arbitrary: p)
  case Nil
  then show ?case by simp
next
  case (Cons f fs)
  from Cons.prems have "f \<in> fst ` set FEATURES" by simp
  from FEATURES_get_catalog[OF this] obtain c where "FEATURES_get f = Own c" ..
  with Cons show ?case by simp
qed

lemma generatePackageJson_total:
  assumes "set features \<subseteq> fst ` set FEATURES"
  shows "\<exists>p. generatePackageJson nm features packageManager stateLibs = Inr p"
proof -
  from add_feature_packages_total[OF assms]
  obtain p' where "add_feature_packages features (base_pkg nm) = Inr p'" by blast
  then show ?thesis by (simp add: generatePackageJson_def)
qed

lemma pnpm_add_scripts [simp]: "pnpm (add_scripts fs pm p) = pnpm p"
  by (simp add: add_scripts_def Let_def)

lemma pnpm_add_state [simp]: "pnpm (add_state fs sl p) = pnpm p"
  by (simp add: add_state_def Let_def)



section \<open>The content of the manifest\<close>

lemma distinct_obj_set:
  "distinct (map fst al) \<Longrightarrow> distinct (map fst (obj_set al k v))"
  by (induction al k v rule: obj_set.induct) (auto simp: keys_obj_set)

lemma distinct_add_latest:
  "distinct (map fst al) \<Longrightarrow> distinct (map fst (add_latest ps al))"
  by (induction ps arbitrary: al) (auto simp: distinct_obj_set)

lemma add_feature_packages_distinct:
  assumes "add_feature_packages fs p = Inr p'"
    and "distinct (map fst (dependencies p))" and "distinct (map fst (devDependencies p))"
  shows "distinct (map fst (dependencies p')) \<and> distinct (map fst (devDependencies p'))"
  using assms
  by (induction fs arbitrary: p) (auto simp: distinct_add_latest split: property.splits)

lemma generatePackageJson_parts:
  assumes "generatePackageJson nm features packageManager stateLibs = Inr p"
  obtains p' where "add_feature_packages features (base_pkg nm) = Inr p'"
    and "p = add_pnpm packageManager
               (add_scripts features packageManager (add_state features stateLibs p'))"
  using assms by (auto simp: generatePackageJson_def split: sum.splits)

lemma map_of_add_state:
  "map_of (dependencies (add_state features stateLibs p)) k =
     (if ''state'' \<in> set features
         \<and> k \<in> set (filter (\<lambda>lib. lib \<in> set stateLibs) [''jotai'', ''zustand''])
      then Some ''latest'' else map_of (dependencies p) k)"
  by (simp add: add_state_def map_of_obj_set Let_def)

lemma set_selected_packages:
  "k \<in> set (selected_packages features stateLibs) \<longleftrightarrow>
     k \<in> (\<Union>f\<in>set features. set (feature_packages f))
     \<or> (''state'' \<in> set features
         \<and> k \<in> set (filter (\<lambda>lib. lib \<in> set stateLibs) [''jotai'', ''zustand'']))"
  by (simp add: selected_packages_def)

lemma generatePackageJson_dependencies:
  assumes "generatePackageJson nm features packageManager stateLibs = Inr p"
  shows "map_of (dependencies p) k =
           (if k \<in> set (selected_packages features stateLibs) then Some ''latest''
            else map_of (dependencies (base_pkg nm)) k)"
proof -
  from assms obtain p' where p': "add_feature_packages features (base_pkg nm) = Inr p'"
    and p: "p = add_pnpm packageManager
                  (add_scripts features packageManager (add_state features stateLibs p'))"
    by (rule generatePackageJson_parts)
  define A where "A \<longleftrightarrow> k \<in> (\<Union>f\<in>set features. set (feature_packages f))"
  define B where "B \<longleftrightarrow> ''state'' \<in> set features
         \<and> k \<in> set (filter (\<lambda>lib. lib \<in> set stateLibs) [''jotai'', ''zustand''])"
  have sel: "k \<in> set (selected_packages features stateLibs) \<longleftrightarrow> A \<or> B"
    unfolding A_def B_def by (rule set_selected_packages)
  have "dependencies p = dependencies (add_state features stateLibs p')"
    by (simp add: p add_pnpm_def add_scripts_def Let_def)
  then have 1: "map_of (dependencies p) k =
     (if B then Some ''latest'' else map_of (dependencies p') k)"
    unfolding B_def by (simp only: map_of_add_state)
  have 2: "map_of (dependencies p') k =
      (if A then Some ''latest'' else map_of (dependencies (base_pkg nm)) k)"
    unfolding A_def by (rule add_feature_packages_Inr(1)[OF p'])
  show ?thesis unfolding sel 1 2 by (cases A; cases B) simp_all
qed

lemma generatePackageJson_devDependencies:
  assumes "generatePackageJson nm features packageManager stateLibs = Inr p"
  shows "map_of (devDependencies p) k =
           (if k \<in> set (selected_devPackages features) then Some ''latest''
            else map_of (devDependencies (base_pkg nm)) k)"
proof -
  from assms obtain p' where p': "add_feature_packages features (base_pkg nm) = Inr p'"
    and p: "p = add_pnpm packageManager
                  (add_scripts features packageManager (add_state features stateLibs p'))"
    by (rule generatePackageJson_parts)
  have "devDependencies p = devDependencies p'"
    by (simp add: p add_pnpm_def add_scripts_def add_state_def Let_def)
  then show ?thesis
    using add_feature_packages_Inr(2)[OF p', of k]
    by (auto simp: selected_devPackages_def)
qed

lemma generatePackageJson_distinct:
  assumes "generatePackageJson nm features packageManager stateLibs = Inr p"
  shows "distinct (map fst (dependencies p)) \<and> distinct (map fst (devDependencies p))"
proof -
  from assms obtain p' where p': "add_feature_packages features (base_pkg nm) = Inr p'"
    and p: "p = add_pnpm packageManager
                  (add_scripts features packageManager (add_state features stateLibs p'))"
    by (rule generatePackageJson_parts)
  have "distinct (map fst (dependencies (base_pkg nm)))"
       "distinct (map fst (devDependencies (base_pkg nm)))"
    by (simp_all add: base_pkg_def)
  from add_feature_packages_distinct[OF p' this]
  have d: "distinct (map fst (dependencies p'))" "distinct (map fst (devDependencies p'))"
    by simp_all
  have "distinct (map fst (dependencies (add_state features stateLibs p')))"
    using d(1) by (simp add: add_state_def Let_def distinct_obj_set)
  moreover have "dependencies p = dependencies (add_state features stateLibs p')"
    "devDependencies p = devDependencies p'"
    by (simp_all add: p add_pnpm_def add_scripts_def add_state_def Let_def)
  ultimately show ?thesis using d(2) by simp
qed

lemma generatePackageJson_scripts:
  assumes "generatePackageJson nm features packageManager stateLibs = Inr p"
  shows "scripts p = scripts (base_pkg nm) @ selected_scripts features packageManager"
proof -
  from assms obtain p' where p': "add_feature_packages features (base_pkg nm) = Inr p'"
    and p: "p = add_pnpm packageManager
                  (add_scripts features packageManager (add_state features stateLibs p'))"
    by (rule generatePackageJson_parts)
  have "scripts (add_state features stateLibs p') = scripts (base_pkg nm)"
    using add_feature_packages_Inr(3)[OF p'] by (simp add: add_state_def Let_def)
  then show ?thesis
    by (simp add: p add_pnpm_def add_scripts_def selected_scripts_def i18n_scripts_def
          testing_scripts_def quality_scripts_def Let_def base_pkg_def)
qed


text \<open>
  No package of the catalog has the name of a package of the base manifest, or of a state
  library.
\<close>

lemma feature_packages_catalog:
  "set (feature_packages f) \<subseteq> set (concat (map (\<lambda>x. packages (snd x)) FEATURES))"
proof (cases "map_of FEATURES f")
  case None
  then show ?thesis
    by (simp add: feature_packages_def FEATURES_get_def split: option.splits)
next
  case (Some c)
  then have "(f, c) \<in> set FEATURES" by (rule map_of_SomeD)
  then have "set (packages c) \<subseteq> set (concat (map (\<lambda>x. packages (snd x)) FEATURES))"
    by force
  with Some show ?thesis by (simp add: feature_packages_def FEATURES_get_def)
qed

lemma feature_devPackages_catalog:
  "set (feature_devPackages f) \<subseteq> set (concat (map (\<lambda>x. devPackages (snd x)) FEATURES))"
proof (cases "map_of FEATURES f")
  case None
  then show ?thesis
    by (simp add: feature_devPackages_def FEATURES_get_def split: option.splits)
next
  case (Some c)
  then have "(f, c) \<in> set FEATURES" by (rule map_of_SomeD)
  then have "set (devPackages c) \<subseteq> set (concat (map (\<lambda>x. devPackages (snd x)) FEATURES))"
    by force
  with Some show ?thesis by (simp add: feature_devPackages_def FEATURES_get_def)
qed

lemma catalog_packages_fresh_all:
  "list_all (\<lambda>k. map_of (dependencies (base_pkg nm)) k = None \<and> k \<noteq> ''jotai''
                 \<and> k \<noteq> ''zustand'')
     (concat (map (\<lambda>x. packages (snd x)) FEATURES))"
  by (simp add: FEATURES_def base_pkg_def)

lemma catalog_devPackages_fresh_all:
  "list_all (\<lambda>k. map_of (devDependencies (base_pkg nm)) k = None \<and> k \<noteq> ''jotai''
                 \<and> k \<noteq> ''zustand'')
     (concat (map (\<lambda>x. devPackages (snd x)) FEATURES))"
  by (simp add: FEATURES_def base_pkg_def)

lemma catalog_packages_fresh:
  assumes "k \<in> set (concat (map (\<lambda>x. packages (snd x)) FEATURES))"
  shows "map_of (dependencies (base_pkg nm)) k = None" and "k \<noteq> ''jotai''" and "k \<noteq> ''zustand''"
  using assms catalog_packages_fresh_all[of nm] unfolding list_all_iff by blast+

lemma catalog_devPackages_fresh:
  assumes "k \<in> set (concat (map (\<lambda>x. devPackages (snd x)) FEATURES))"
  shows "map_of (devDependencies (base_pkg nm)) k = None" and "k \<noteq> ''jotai''" and "k \<noteq> ''zustand''"
  using assms catalog_devPackages_fresh_all[of nm] unfolding list_all_iff by blast+

lemma feature_packages_fresh:
  assumes "k \<in> set (feature_packages f)"
  shows "map_of (dependencies (base_pkg nm)) k = None" and "k \<noteq> ''jotai''" and "k \<noteq> ''zustand''"
  using assms feature_packages_catalog[of f] catalog_packages_fresh[of k] by blast+

lemma feature_devPackages_fresh:
  assumes "k \<in> set (feature_devPackages f)"
  shows "map_of (devDependencies (base_pkg nm)) k = None" and "k \<noteq> ''jotai''" and "k \<noteq> ''zustand''"
  using assms feature_devPackages_catalog[of f] catalog_devPackages_fresh[of k] by blast+

lemma selected_packages_mono:
  "set fs \<subseteq> set fs' \<Longrightarrow> set (selected_packages fs sl) \<subseteq> set (selected_packages fs' sl)"
  "set fs \<subseteq> set fs' \<Longrightarrow> set (selected_devPackages fs) \<subseteq> set (selected_devPackages fs')"
  by (auto simp: selected_packages_def selected_devPackages_def)

lemma selected_packages_fresh:
  "k \<in> set (selected_packages fs sl) \<Longrightarrow> map_of (dependencies (base_pkg nm)) k = None"
  by (auto simp: selected_packages_def feature_packages_fresh(1) split: if_splits)
     (simp_all add: base_pkg_def)

lemma selected_devPackages_fresh:
  "k \<in> set (selected_devPackages fs) \<Longrightarrow> map_of (devDependencies (base_pkg nm)) k = None"
  by (auto simp: selected_devPackages_def feature_devPackages_fresh(1))

lemma selected_scripts_mono:
  "set fs \<subseteq> set fs' \<Longrightarrow> set (selected_scripts fs pm) \<subseteq> set (selected_scripts fs' pm)"
  by (auto simp: selected_scripts_def)

lemma manifest_entries_mono:
  assumes "set features \<subseteq> set features'" and "set features' \<subseteq> fst ` set FEATURES"
  shows "\<exists>p p'. generatePackageJson nm features packageManager stateLibs = Inr p
           \<and> generatePackageJson nm features' packageManager stateLibs = Inr p'
           \<and> set (dependencies p) \<subseteq> set (dependencies p')
           \<and> set (devDependencies p) \<subseteq> set (devDependencies p')
           \<and> set (scripts p) \<subseteq> set (scripts p')"
proof -
  from assms have "set features \<subseteq> fst ` set FEATURES" by blast
  from generatePackageJson_total[OF this]
  obtain p where p: "generatePackageJson nm features packageManager stateLibs = Inr p"
    by blast
  from generatePackageJson_total[OF assms(2)]
  obtain p' where p': "generatePackageJson nm features' packageManager stateLibs = Inr p'"
    by blast
  note d = generatePackageJson_distinct[OF p] and d' = generatePackageJson_distinct[OF p']
  have deps: "set (dependencies p) \<subseteq> set (dependencies p')"
  proof
    fix e assume e: "e \<in> set (dependencies p)"
    obtain k v where kv: "e = (k, v)" by (cases e)
    with e d have m: "map_of (dependencies p) k = Some v" by simp
    have "map_of (dependencies p') k = Some v"
    proof (cases "k \<in> set (selected_packages features stateLibs)")
      case True
      with selected_packages_mono(1)[OF assms(1)]
      have "k \<in> set (selected_packages features' stateLibs)" by blast
      with True m show ?thesis
        by (simp add: generatePackageJson_dependencies[OF p] generatePackageJson_dependencies[OF p'])
    next
      case False
      with m have b: "map_of (dependencies (base_pkg nm)) k = Some v"
        by (simp add: generatePackageJson_dependencies[OF p])
      then have "k \<notin> set (selected_packages features' stateLibs)"
        using selected_packages_fresh[of k features' stateLibs nm] by auto
      with b show ?thesis by (simp add: generatePackageJson_dependencies[OF p'])
    qed
    with d' kv show "e \<in> set (dependencies p')" by simp
  qed
  have devs: "set (devDependencies p) \<subseteq> set (devDependencies p')"
  proof
    fix e assume e: "e \<in> set (devDependencies p)"
    obtain k v where kv: "e = (k, v)" by (cases e)
    with e d have m: "map_of (devDependencies p) k = Some v" by simp
    have "map_of (devDependencies p') k = Some v"
    proof (cases "k \<in> set (selected_devPackages features)")
      case True
      with selected_packages_mono(2)[OF assms(1)]
      have "k \<in> set (selected_devPackages features')" by blast
      with True m show ?thesis
        by (simp add: generatePackageJson_devDependencies[OF p]
              generatePackageJson_devDependencies[OF p'])
    next
      case False
      with m have b: "map_of (devDependencies (base_pkg nm)) k = Some v"
        by (simp add: generatePackageJson_devDependencies[OF p])
      then have "k \<notin> set (selected_devPackages features')"
        using selected_devPackages_fresh[of k features' nm] by auto
      with b show ?thesis by (simp add: generatePackageJson_devDependencies[OF p'])
    qed
    with d' kv show "e \<in> set (devDependencies p')" by simp
  qed
  have "set (scripts p) \<subseteq> set (scripts p')"
    using selected_scripts_mono[OF assms(1), of packageManager]
    by (auto simp: generatePackageJson_scripts[OF p] generatePackageJson_scripts[OF p'])
  with p p' deps devs show ?thesis by blast
qed











section \<open>The run as a sequence of steps\<close>

lemma written_paths_append [simp]:
  "written_paths (xs @ ys) = written_paths xs @ written_paths ys"
  by (induction xs rule: written_paths.induct) auto

lemma then_step_assoc: "then_step a (then_step b c) = then_step (then_step a b) c"
proof -
  obtain xa ea xb eb xc ec where "a = (xa, ea)" "b = (xb, eb)" "c = (xc, ec)"
    by (cases a, cases b, cases c) blast
  then show ?thesis by (cases ea; cases eb) auto
qed

lemma scaffold_before_git:
  "scaffold cwd result =
     then_step (before_git cwd result)
       (if ans_initGit result
        then [WriteFile (path_join (path_join cwd (ans_projectName result)) ''.gitignore'')
                getGitignore]
        else [], None)"
  unfolding scaffold_def before_git_def Let_def then_step_assoc ..

lemma before_git_initGit [simp]:
  "before_git cwd (result\<lparr>ans_initGit := g\<rparr>) = before_git cwd result"
  by (simp add: before_git_def)

lemma scaffold_starts_with_mkdir:
  "\<exists>ops. fst (scaffold cwd result) = Mkdir (path_join cwd (ans_projectName result)) # ops"
proof -
  have "\<exists>ops. fst (then_step ([Mkdir d], None) s) = Mkdir d # ops" for d s
    by (cases s) simp
  then show ?thesis unfolding scaffold_def Let_def by blast
qed

lemma FEATURES_get_simps:
  "FEATURES_get ''i18n'' = Own (the (map_of FEATURES ''i18n''))"
  "FEATURES_get ''ui'' = Own (the (map_of FEATURES ''ui''))"
  "FEATURES_get ''state'' = Own (the (map_of FEATURES ''state''))"
  "FEATURES_get ''auth'' = Own (the (map_of FEATURES ''auth''))"
  "FEATURES_get ''animation'' = Own (the (map_of FEATURES ''animation''))"
  "FEATURES_get ''testing'' = Own (the (map_of FEATURES ''testing''))"
  "FEATURES_get ''quality'' = Own (the (map_of FEATURES ''quality''))"
  "FEATURES_get ''deploy'' = Own (the (map_of FEATURES ''deploy''))"
  "FEATURES_get ''bogus'' = Undefined"
  "FEATURES_get ''toString'' = Inherited ''toString''"
  by (simp_all add: FEATURES_get_def FEATURES_def object_prototype_def)

lemmas run_simps =
  init_def scaffold_def or_default_def generatePackageJson_def FEATURES_get_simps
  createConfigFiles_def createReadme_def createBaseStructure_def feature_setup_def
  demo_answers_def Let_def

section \<open>Message files\<close>

lemma count_list_distinct:
  "distinct xs \<Longrightarrow> x \<in> set xs \<Longrightarrow> count_list xs x = 1"
  by (induction xs) auto

lemma inj_message_path: "inj (message_path root)"
  by (rule injI) (simp add: message_path_def path_join_def)

lemma written_paths_createI18nSetup:
  "written_paths (createI18nSetup root languages baseLocale)
     = path_join (path_join root ''project.inlang'') ''settings.json''
       # map (message_path root) languages"
proof -
  have "written_paths
          (map (\<lambda>lang. WriteFile (path_join (path_join root ''messages'') (lang @ ''.json''))
                            (JSON_stringify (message_json lang))) ls)
        = map (message_path root) ls" for ls
    by (induction ls) (simp_all add: message_path_def)
  then show ?thesis
    by (simp add: createI18nSetup_def Let_def)
qed

lemma settings_not_message:
  "path_join (path_join root ''project.inlang'') ''settings.json'' \<noteq> message_path root l"
  by (simp add: message_path_def path_join_def)

lemma createI18nSetup_content:
  assumes "WriteFile (message_path root l) c \<in> set (createI18nSetup root languages baseLocale)"
  shows "c = JSON_stringify (message_json l)"
proof -
  from assms settings_not_message[of root l]
  obtain lang where "lang \<in> set languages" "message_path root l = message_path root lang"
    "c = JSON_stringify (message_json lang)"
    by (auto simp: createI18nSetup_def Let_def message_path_def)
  moreover from this(2) have "l = lang" using inj_message_path by (auto dest: injD)
  ultimately show ?thesis by simp
qed

lemma JSON_stringify_message_en: "JSON_stringify (message_json ''en'') = en_json_text"
  by (simp add: JSON_stringify_def message_json_def welcome_phrase_def description_phrase_def
        quote_def escape_char_def en_json_text_def)

lemma JSON_stringify_message_vi: "JSON_stringify (message_json ''vi'') = vi_json_text"
  by (simp add: JSON_stringify_def message_json_def welcome_phrase_def description_phrase_def
        quote_def escape_char_def vi_json_text_def vi_welcome_def vi_description_def)

section \<open>The files of a run\<close>

lemma path_join_eq [simp]: "path_join r a = path_join r b \<longleftrightarrow> a = b"
  by (simp add: path_join_def)

lemma path_join_nested: "path_join (path_join r a) b = path_join r (a @ ''/'' @ b)"
  by (simp add: path_join_def)

lemma message_path_rel: "message_path root l = path_join root (''messages/'' @ l @ ''.json'')"
  by (simp add: message_path_def path_join_def)

lemma feature_lines_total:
  "set fs \<subseteq> fst ` set FEATURES \<Longrightarrow> \<exists>ls. feature_lines fs = Inr ls"
proof (induction fs)
  case Nil
  then show ?case by simp
next
  case (Cons f fs)
  from Cons.prems have "f \<in> fst ` set FEATURES" by simp
  from FEATURES_get_catalog[OF this] obtain c where "FEATURES_get f = Own c" ..
  moreover from Cons obtain ls where "feature_lines fs = Inr ls" by auto
  ultimately show ?case by simp
qed

lemma written_paths_map_WriteFile:
  "written_paths (map (\<lambda>x. WriteFile (g x) (h x)) xs) = map g xs"
  by (induction xs) simp_all

lemma written_paths_map_Mkdir: "written_paths (map (\<lambda>x. Mkdir (g x)) xs) = []"
  by (induction xs) simp_all

lemma written_createBaseStructure:
  "written_paths (createBaseStructure root)
     = map (path_join root)
         [''src/client.tsx'', ''src/server.ts'', ''src/router.tsx'', ''src/routes/__root.tsx'',
          ''src/routes/index.tsx'', ''src/styles/global.css'']"
  by (simp add: createBaseStructure_def)

lemma written_feature_setup:
  "written_paths (feature_setup root features languages baseLocale stateLibs)
     = (if ''i18n'' \<in> set features
        then path_join root ''project.inlang/settings.json'' # map (message_path root) languages
        else [])
       @ (if ''ui'' \<in> set features
          then map (path_join root) [''components.json'', ''src/lib/utils.ts''] else [])
       @ (if ''state'' \<in> set features
          then (if ''jotai'' \<in> set stateLibs
                then [path_join root ''src/store/jotaiStore.ts''] else [])
               @ (if ''zustand'' \<in> set stateLibs
                  then [path_join root ''src/store/zustandStore.ts''] else [])
          else [])
       @ (if ''auth'' \<in> set features then [path_join root ''src/services/auth.ts''] else [])
       @ (if ''testing'' \<in> set features
          then map (path_join root) [''vitest.config.ts'', ''tests/setup.ts''] else [])
       @ (if ''quality'' \<in> set features
          then map (path_join root) [''biome.json'', ''.editorconfig''] else [])"
  by (simp add: feature_setup_def written_paths_createI18nSetup path_join_nested
        createUISetup_def createStateSetup_def createAuthSetup_def createTestingSetup_def
        createQualitySetup_def)

lemma written_createConfigFiles:
  "written_paths (fst (createConfigFiles root features))
     = map (path_join root) [''tsconfig.json'', ''vite.config.ts'']
       @ (if ''ui'' \<in> set features then [path_join root ''tailwind.config.mjs''] else [])
       @ [path_join root ''.env.example'']"
  by (simp add: createConfigFiles_def)

lemma run_written_eq:
  assumes "set (or_default [] (ans_features result)) \<subseteq> fst ` set FEATURES"
  shows "run_written result cwd
     = path_join (path_join cwd (ans_projectName result)) ''package.json''
       # written_paths (createBaseStructure (path_join cwd (ans_projectName result)))
       @ written_paths (feature_setup (path_join cwd (ans_projectName result))
           (or_default [] (ans_features result)) (or_default [''en''] (ans_languages result))
           (or_default ''en'' (ans_baseLocale result))
           (or_default [''jotai''] (ans_stateLibs result)))
       @ written_paths (fst (createConfigFiles (path_join cwd (ans_projectName result))
           (or_default [] (ans_features result))))
       @ (if ''deploy'' \<notin> set (or_default [] (ans_features result))
          then [path_join (path_join cwd (ans_projectName result)) ''README.md''] else [])
       @ (if ''deploy'' \<notin> set (or_default [] (ans_features result)) \<and> ans_initGit result
          then [path_join (path_join cwd (ans_projectName result)) ''.gitignore''] else [])"
proof -
  from generatePackageJson_total[OF assms]
  obtain p where p: "generatePackageJson (ans_projectName result)
      (or_default [] (ans_features result)) (ans_packageManager result)
      (or_default [''jotai''] (ans_stateLibs result)) = Inr p"
    by blast
  from feature_lines_total[OF assms]
  obtain ls where ls: "feature_lines (or_default [] (ans_features result)) = Inr ls" by blast
  have c: "snd (createConfigFiles r (or_default [] (ans_features result)))
      = (if ''deploy'' \<in> set (or_default [] (ans_features result))
         then Some ReferenceError else None)" for r
    by (simp add: createConfigFiles_def)
  obtain cf where cf: "createConfigFiles (path_join cwd (ans_projectName result))
      (or_default [] (ans_features result))
      = (cf, if ''deploy'' \<in> set (or_default [] (ans_features result))
             then Some ReferenceError else None)"
    using c[of "path_join cwd (ans_projectName result)"]
    by (cases "createConfigFiles (path_join cwd (ans_projectName result))
      (or_default [] (ans_features result))") simp
  show ?thesis
    by (simp add: run_written_def init_def scaffold_def Let_def p ls cf createReadme_def
          fresh_disk_def)
qed


lemma in_set_if_Nil: "x \<in> set (if c then xs else []) \<longleftrightarrow> c \<and> x \<in> set xs"
  by simp

lemma count_list_if_Nil:
  "count_list (if c then xs else []) x = (if c then 1 else 0) * count_list xs x"
  by simp

lemma not_message_path:
  "rel \<noteq> [] \<Longrightarrow> hd rel \<noteq> CHR ''m'' \<Longrightarrow> path_join root rel \<noteq> message_path root l"
  by (cases rel) (simp_all add: message_path_rel)

lemma not_in_message_paths:
  "rel \<noteq> [] \<Longrightarrow> hd rel \<noteq> CHR ''m'' \<Longrightarrow> path_join root rel \<notin> message_path root ` S"
  using not_message_path by blast

lemma run_written_store:
  assumes "set (or_default [] (ans_features result)) \<subseteq> fst ` set FEATURES"
  shows "path_join (path_join cwd (ans_projectName result)) ''src/store/jotaiStore.ts''
           \<in> set (run_written result cwd)
         \<longleftrightarrow> ''state'' \<in> set (or_default [] (ans_features result))
             \<and> ''jotai'' \<in> set (or_default [''jotai''] (ans_stateLibs result))"
    and "path_join (path_join cwd (ans_projectName result)) ''src/store/zustandStore.ts''
           \<in> set (run_written result cwd)
         \<longleftrightarrow> ''state'' \<in> set (or_default [] (ans_features result))
             \<and> ''zustand'' \<in> set (or_default [''jotai''] (ans_stateLibs result))"
  by (simp_all add: run_written_eq[OF assms] written_createBaseStructure written_feature_setup
        written_createConfigFiles in_set_if_Nil not_in_message_paths
        split del: if_split)

lemma run_written_wrangler:
  assumes "set (or_default [] (ans_features result)) \<subseteq> fst ` set FEATURES"
  shows "path_join (path_join cwd (ans_projectName result)) ''wrangler.json''
           \<notin> set (run_written result cwd)"
  by (simp add: run_written_eq[OF assms] written_createBaseStructure written_feature_setup
        written_createConfigFiles in_set_if_Nil not_in_message_paths
        split del: if_split)

lemma run_written_messages:
  assumes "set (or_default [] (ans_features result)) \<subseteq> fst ` set FEATURES"
    and "''i18n'' \<in> set (or_default [] (ans_features result))"
  shows "count_list (run_written result cwd)
           (message_path (path_join cwd (ans_projectName result)) l)
         = count_list (or_default [''en''] (ans_languages result)) l"
  using assms(2)
  by (simp add: run_written_eq[OF assms(1)] written_createBaseStructure written_feature_setup
        written_createConfigFiles count_list_if_Nil not_message_path
        count_list_map_conv[OF inj_message_path]
        split del: if_split)

lemma run_written_tail:
  assumes "set (or_default [] (ans_features result)) \<subseteq> fst ` set FEATURES"
  shows "path_join (path_join cwd (ans_projectName result)) ''README.md''
           \<in> set (run_written result cwd)
         \<longleftrightarrow> ''deploy'' \<notin> set (or_default [] (ans_features result))"
    and "path_join (path_join cwd (ans_projectName result)) ''.gitignore''
           \<in> set (run_written result cwd)
         \<longleftrightarrow> ''deploy'' \<notin> set (or_default [] (ans_features result))
             \<and> ans_initGit result"
  by (simp_all add: run_written_eq[OF assms] written_createBaseStructure written_feature_setup
        written_createConfigFiles in_set_if_Nil not_in_message_paths
        split del: if_split)

text \<open>The operations of a run that reaches the scaffolding, and the writes to single paths.\<close>

lemma run_ops:
  assumes "set (or_default [] (ans_features result)) \<subseteq> fst ` set FEATURES"
    and "\<not> existsSync (path_join cwd (ans_projectName result))"
  shows "\<exists>p ls.
      generatePackageJson (ans_projectName result) (or_default [] (ans_features result))
        (ans_packageManager result) (or_default [''jotai''] (ans_stateLibs result)) = Inr p
    \<and> feature_lines (or_default [] (ans_features result)) = Inr ls
    \<and> init (Answered result) cwd existsSync
      = \<lparr>exit_status = (if ''deploy'' \<in> set (or_default [] (ans_features result)) then 1 else 0),
         fs_ops =
           [Mkdir (path_join cwd (ans_projectName result)),
            WriteFile (path_join (path_join cwd (ans_projectName result)) ''package.json'')
              (JSON_stringify (pkg_json p))]
           @ createBaseStructure (path_join cwd (ans_projectName result))
           @ feature_setup (path_join cwd (ans_projectName result))
               (or_default [] (ans_features result)) (or_default [''en''] (ans_languages result))
               (or_default ''en'' (ans_baseLocale result))
               (or_default [''jotai''] (ans_stateLibs result))
           @ fst (createConfigFiles (path_join cwd (ans_projectName result))
               (or_default [] (ans_features result)))
           @ (if ''deploy'' \<notin> set (or_default [] (ans_features result))
              then [WriteFile (path_join (path_join cwd (ans_projectName result)) ''README.md'')
                      (readme_text (ans_projectName result) ls
                         (or_default [] (ans_features result)) (ans_packageManager result))]
              else [])
           @ (if ''deploy'' \<notin> set (or_default [] (ans_features result)) \<and> ans_initGit result
              then [WriteFile (path_join (path_join cwd (ans_projectName result)) ''.gitignore'')
                      getGitignore]
              else [])\<rparr>"
proof -
  from generatePackageJson_total[OF assms(1)]
  obtain p where p: "generatePackageJson (ans_projectName result)
      (or_default [] (ans_features result)) (ans_packageManager result)
      (or_default [''jotai''] (ans_stateLibs result)) = Inr p"
    by blast
  from feature_lines_total[OF assms(1)]
  obtain ls where ls: "feature_lines (or_default [] (ans_features result)) = Inr ls" by blast
  obtain cf where cf: "createConfigFiles (path_join cwd (ans_projectName result))
      (or_default [] (ans_features result))
      = (cf, if ''deploy'' \<in> set (or_default [] (ans_features result))
             then Some ReferenceError else None)"
    by (simp add: createConfigFiles_def)
  have "init (Answered result) cwd existsSync
      = \<lparr>exit_status = (if ''deploy'' \<in> set (or_default [] (ans_features result)) then 1 else 0),
         fs_ops =
           [Mkdir (path_join cwd (ans_projectName result)),
            WriteFile (path_join (path_join cwd (ans_projectName result)) ''package.json'')
              (JSON_stringify (pkg_json p))]
           @ createBaseStructure (path_join cwd (ans_projectName result))
           @ feature_setup (path_join cwd (ans_projectName result))
               (or_default [] (ans_features result)) (or_default [''en''] (ans_languages result))
               (or_default ''en'' (ans_baseLocale result))
               (or_default [''jotai''] (ans_stateLibs result))
           @ fst (createConfigFiles (path_join cwd (ans_projectName result))
               (or_default [] (ans_features result)))
           @ (if ''deploy'' \<notin> set (or_default [] (ans_features result))
              then [WriteFile (path_join (path_join cwd (ans_projectName result)) ''README.md'')
                      (readme_text (ans_projectName result) ls
                         (or_default [] (ans_features result)) (ans_packageManager result))]
              else [])
           @ (if ''deploy'' \<notin> set (or_default [] (ans_features result)) \<and> ans_initGit result
              then [WriteFile (path_join (path_join cwd (ans_projectName result)) ''.gitignore'')
                      getGitignore]
              else [])\<rparr>"
    using assms(2)
    by (simp add: init_def scaffold_def Let_def p ls cf createReadme_def)
  with p ls show ?thesis by blast
qed

lemma store_write_in_feature_setup:
  "WriteFile (path_join root ''src/store/jotaiStore.ts'') c
     \<in> set (feature_setup root features languages baseLocale stateLibs)
   \<longleftrightarrow> ''state'' \<in> set features \<and> ''jotai'' \<in> set stateLibs \<and> c = jotaiStore_ts"
  "WriteFile (path_join root ''src/store/zustandStore.ts'') c
     \<in> set (feature_setup root features languages baseLocale stateLibs)
   \<longleftrightarrow> ''state'' \<in> set features \<and> ''zustand'' \<in> set stateLibs \<and> c = zustandStore_ts"
  by (auto simp: feature_setup_def createI18nSetup_def Let_def createUISetup_def
        createStateSetup_def createAuthSetup_def createTestingSetup_def createQualitySetup_def
        path_join_nested in_set_if_Nil split del: if_split)

lemma store_write_in_run:
  assumes "set (or_default [] (ans_features result)) \<subseteq> fst ` set FEATURES"
    and "\<not> existsSync (path_join cwd (ans_projectName result))"
  shows "WriteFile (path_join (path_join cwd (ans_projectName result)) ''src/store/jotaiStore.ts'') c
           \<in> set (fs_ops (init (Answered result) cwd existsSync))
         \<longleftrightarrow> ''state'' \<in> set (or_default [] (ans_features result))
             \<and> ''jotai'' \<in> set (or_default [''jotai''] (ans_stateLibs result))
             \<and> c = jotaiStore_ts"
    and "WriteFile (path_join (path_join cwd (ans_projectName result)) ''src/store/zustandStore.ts'') c
           \<in> set (fs_ops (init (Answered result) cwd existsSync))
         \<longleftrightarrow> ''state'' \<in> set (or_default [] (ans_features result))
             \<and> ''zustand'' \<in> set (or_default [''jotai''] (ans_stateLibs result))
             \<and> c = zustandStore_ts"
proof -
  from run_ops[where existsSync = existsSync, OF assms] obtain p ls where
    r: "init (Answered result) cwd existsSync
      = \<lparr>exit_status = (if ''deploy'' \<in> set (or_default [] (ans_features result)) then 1 else 0),
         fs_ops =
           [Mkdir (path_join cwd (ans_projectName result)),
            WriteFile (path_join (path_join cwd (ans_projectName result)) ''package.json'')
              (JSON_stringify (pkg_json p))]
           @ createBaseStructure (path_join cwd (ans_projectName result))
           @ feature_setup (path_join cwd (ans_projectName result))
               (or_default [] (ans_features result)) (or_default [''en''] (ans_languages result))
               (or_default ''en'' (ans_baseLocale result))
               (or_default [''jotai''] (ans_stateLibs result))
           @ fst (createConfigFiles (path_join cwd (ans_projectName result))
               (or_default [] (ans_features result)))
           @ (if ''deploy'' \<notin> set (or_default [] (ans_features result))
              then [WriteFile (path_join (path_join cwd (ans_projectName result)) ''README.md'')
                      (readme_text (ans_projectName result) ls
                         (or_default [] (ans_features result)) (ans_packageManager result))]
              else [])
           @ (if ''deploy'' \<notin> set (or_default [] (ans_features result)) \<and> ans_initGit result
              then [WriteFile (path_join (path_join cwd (ans_projectName result)) ''.gitignore'')
                      getGitignore]
              else [])\<rparr>"
    by blast
  show "WriteFile (path_join (path_join cwd (ans_projectName result)) ''src/store/jotaiStore.ts'') c
           \<in> set (fs_ops (init (Answered result) cwd existsSync))
         \<longleftrightarrow> ''state'' \<in> set (or_default [] (ans_features result))
             \<and> ''jotai'' \<in> set (or_default [''jotai''] (ans_stateLibs result))
             \<and> c = jotaiStore_ts"
    by (simp add: r store_write_in_feature_setup createBaseStructure_def createConfigFiles_def
          in_set_if_Nil split del: if_split)
  show "WriteFile (path_join (path_join cwd (ans_projectName result)) ''src/store/zustandStore.ts'') c
           \<in> set (fs_ops (init (Answered result) cwd existsSync))
         \<longleftrightarrow> ''state'' \<in> set (or_default [] (ans_features result))
             \<and> ''zustand'' \<in> set (or_default [''jotai''] (ans_stateLibs result))
             \<and> c = zustandStore_ts"
    by (simp add: r store_write_in_feature_setup createBaseStructure_def createConfigFiles_def
          in_set_if_Nil split del: if_split)
qed


lemma gitignore_not_in_feature_setup:
  "WriteFile (path_join root ''.gitignore'') c
     \<notin> set (feature_setup root features languages baseLocale stateLibs)"
  by (auto simp: feature_setup_def createI18nSetup_def Let_def createUISetup_def
        createStateSetup_def createAuthSetup_def createTestingSetup_def createQualitySetup_def
        path_join_nested in_set_if_Nil split del: if_split)

lemma gitignore_write_in_run:
  assumes "set (or_default [] (ans_features result)) \<subseteq> fst ` set FEATURES"
    and "\<not> existsSync (path_join cwd (ans_projectName result))"
  shows "WriteFile (path_join (path_join cwd (ans_projectName result)) ''.gitignore'') c
           \<in> set (fs_ops (init (Answered result) cwd existsSync))
         \<longleftrightarrow> ''deploy'' \<notin> set (or_default [] (ans_features result))
             \<and> ans_initGit result \<and> c = getGitignore"
proof -
  from run_ops[where existsSync = existsSync, OF assms] obtain p ls where
    r: "init (Answered result) cwd existsSync
      = \<lparr>exit_status = (if ''deploy'' \<in> set (or_default [] (ans_features result)) then 1 else 0),
         fs_ops =
           [Mkdir (path_join cwd (ans_projectName result)),
            WriteFile (path_join (path_join cwd (ans_projectName result)) ''package.json'')
              (JSON_stringify (pkg_json p))]
           @ createBaseStructure (path_join cwd (ans_projectName result))
           @ feature_setup (path_join cwd (ans_projectName result))
               (or_default [] (ans_features result)) (or_default [''en''] (ans_languages result))
               (or_default ''en'' (ans_baseLocale result))
               (or_default [''jotai''] (ans_stateLibs result))
           @ fst (createConfigFiles (path_join cwd (ans_projectName result))
               (or_default [] (ans_features result)))
           @ (if ''deploy'' \<notin> set (or_default [] (ans_features result))
              then [WriteFile (path_join (path_join cwd (ans_projectName result)) ''README.md'')
                      (readme_text (ans_projectName result) ls
                         (or_default [] (ans_features result)) (ans_packageManager result))]
              else [])
           @ (if ''deploy'' \<notin> set (or_default [] (ans_features result)) \<and> ans_initGit result
              then [WriteFile (path_join (path_join cwd (ans_projectName result)) ''.gitignore'')
                      getGitignore]
              else [])\<rparr>"
    by blast
  show ?thesis
    by (auto simp: r gitignore_not_in_feature_setup createBaseStructure_def
          createConfigFiles_def in_set_if_Nil split del: if_split)
qed

lemma run_exit_status:
  assumes "set (or_default [] (ans_features result)) \<subseteq> fst ` set FEATURES"
    and "\<not> existsSync (path_join cwd (ans_projectName result))"
  shows "exit_status (init (Answered result) cwd existsSync)
       = (if ''deploy'' \<in> set (or_default [] (ans_features result)) then 1 else 0)"
  using run_ops[where existsSync = existsSync, OF assms] by (elim exE conjE) simp

section \<open>Keys outside the catalog\<close>

lemma FEATURES_get_Undefined:
  "f \<notin> fst ` set FEATURES \<Longrightarrow> f \<notin> fst ` set object_prototype
     \<Longrightarrow> FEATURES_get f = Undefined"
  by (simp add: FEATURES_get_def map_of_eq_None_iff[symmetric])

lemma add_feature_packages_filter:
  assumes "set fs \<inter> fst ` set object_prototype = {}"
  shows "add_feature_packages (filter (\<lambda>f. f \<in> fst ` set FEATURES) fs) p
           = add_feature_packages fs p"
  using assms
proof (induction fs arbitrary: p)
  case Nil
  then show ?case by simp
next
  case (Cons f fs)
  then have IH: "add_feature_packages (filter (\<lambda>f. f \<in> fst ` set FEATURES) fs) q
           = add_feature_packages fs q" for q
    by simp
  show ?case
  proof (cases "f \<in> fst ` set FEATURES")
    case True
    from FEATURES_get_catalog[OF this] obtain c where "FEATURES_get f = Own c" ..
    with True IH show ?thesis by simp
  next
    case False
    moreover from Cons.prems have "f \<notin> fst ` set object_prototype" by simp
    ultimately have "FEATURES_get f = Undefined" by (rule FEATURES_get_Undefined)
    with False IH show ?thesis by simp
  qed
qed

lemma catalog_flags:
  "''state'' \<in> fst ` set FEATURES" "''i18n'' \<in> fst ` set FEATURES"
  "''testing'' \<in> fst ` set FEATURES" "''quality'' \<in> fst ` set FEATURES"
  by (simp_all add: FEATURES_def)

lemma generatePackageJson_filter:
  assumes "set features \<inter> fst ` set object_prototype = {}"
  shows "generatePackageJson nm (filter (\<lambda>f. f \<in> fst ` set FEATURES) features)
             packageManager stateLibs
           = generatePackageJson nm features packageManager stateLibs"
proof -
  have a: "add_state (filter (\<lambda>f. f \<in> fst ` set FEATURES) features) stateLibs q
          = add_state features stateLibs q" for q
    using catalog_flags(1) by (simp add: add_state_def)
  have b: "add_scripts (filter (\<lambda>f. f \<in> fst ` set FEATURES) features) packageManager q
          = add_scripts features packageManager q" for q
    using catalog_flags(2-4) by (simp add: add_scripts_def)
  show ?thesis
    unfolding generatePackageJson_def add_feature_packages_filter[OF assms] a b ..
qed

text \<open>
  Claim C1, as stated, fails: there is no unknown-feature error. For the selection
  \<^verbatim>\<open>["bogus"]\<close> the manifest is composed, and it is the base manifest, as for the
  empty selection: the key is skipped. The run writes \<^verbatim>\<open>package.json\<close>, the base
  structure and the configuration files, and only then ends with exit status 1, on the
  TypeError of the README step.
\<close>

theorem unknown_feature_not_rejected:
  "''bogus'' \<notin> fst ` set FEATURES
   \<and> generatePackageJson ''demo'' [''bogus''] ''npm'' [''jotai''] = Inr (base_pkg ''demo'')
   \<and> generatePackageJson ''demo'' [] ''npm'' [''jotai''] = Inr (base_pkg ''demo'')
   \<and> createReadme ''/work/demo'' ''demo'' [''bogus''] ''npm'' = ([], Some TypeError)
   \<and> init (Answered (demo_answers ''npm'' [''bogus''] True)) ''/work'' fresh_disk
     = \<lparr>exit_status = 1,
        fs_ops =
          [Mkdir ''/work/demo'',
           WriteFile ''/work/demo/package.json'' (JSON_stringify (pkg_json (base_pkg ''demo'')))]
          @ createBaseStructure ''/work/demo''
          @ [WriteFile ''/work/demo/tsconfig.json'' (JSON_stringify (tsconfig_json [''bogus''])),
             WriteFile ''/work/demo/vite.config.ts'' (getViteConfig [''bogus'']),
             WriteFile ''/work/demo/.env.example'' env_example]\<rparr>"
proof -
  have g: "generatePackageJson ''demo'' [''bogus''] ''npm'' [''jotai''] = Inr (base_pkg ''demo'')"
    "generatePackageJson ''demo'' [] ''npm'' [''jotai''] = Inr (base_pkg ''demo'')"
    by (simp_all add: generatePackageJson_def FEATURES_get_simps add_state_def add_scripts_def
          add_pnpm_def)
  have r: "createReadme ''/work/demo'' ''demo'' [''bogus''] ''npm'' = ([], Some TypeError)"
    by (simp add: createReadme_def FEATURES_get_simps)
  have "init (Answered (demo_answers ''npm'' [''bogus''] True)) ''/work'' fresh_disk
     = \<lparr>exit_status = 1,
        fs_ops =
          [Mkdir ''/work/demo'',
           WriteFile ''/work/demo/package.json'' (JSON_stringify (pkg_json (base_pkg ''demo'')))]
          @ createBaseStructure ''/work/demo''
          @ [WriteFile ''/work/demo/tsconfig.json'' (JSON_stringify (tsconfig_json [''bogus''])),
             WriteFile ''/work/demo/vite.config.ts'' (getViteConfig [''bogus'']),
             WriteFile ''/work/demo/.env.example'' env_example]\<rparr>"
    by (simp add: init_def scaffold_def or_default_def g createConfigFiles_def
          createReadme_def feature_setup_def demo_answers_def Let_def FEATURES_get_simps
          fresh_disk_def path_join_def)
  moreover have "''bogus'' \<notin> fst ` set FEATURES" by (simp add: FEATURES_def)
  ultimately show ?thesis using g r by simp
qed

text \<open>
  Claim C1, amended. For a selection none of whose keys names a property that every
  object inherits (\<^verbatim>\<open>toString\<close>, \<^verbatim>\<open>constructor\<close>, ...), composing the
  manifest does not fail, and the keys outside the catalog are skipped: the manifest is the
  one of the selection restricted to its catalog keys.
\<close>

theorem unknown_features_skipped:
  assumes "set features \<inter> fst ` set object_prototype = {}"
  shows "\<exists>p. generatePackageJson nm features packageManager stateLibs = Inr p
           \<and> generatePackageJson nm (filter (\<lambda>f. f \<in> fst ` set FEATURES) features)
                 packageManager stateLibs = Inr p"
proof -
  have "set (filter (\<lambda>f. f \<in> fst ` set FEATURES) features) \<subseteq> fst ` set FEATURES"
    by auto
  from generatePackageJson_total[OF this]
  obtain p where "generatePackageJson nm (filter (\<lambda>f. f \<in> fst ` set FEATURES) features)
                 packageManager stateLibs = Inr p"
    by blast
  with generatePackageJson_filter[OF assms, of nm packageManager stateLibs]
  show ?thesis by metis
qed

theorem unknown_features_skipped_witness:
  "set [''ui'', ''bogus''] \<inter> fst ` set object_prototype = {}
   \<and> filter (\<lambda>f. f \<in> fst ` set FEATURES) [''ui'', ''bogus''] = [''ui'']
   \<and> (\<exists>p. generatePackageJson ''demo'' [''ui'', ''bogus''] ''npm'' [''jotai''] = Inr p
          \<and> generatePackageJson ''demo'' [''ui''] ''npm'' [''jotai''] = Inr p)"
proof -
  have 1: "set [''ui'', ''bogus''] \<inter> fst ` set object_prototype = {}"
    by (simp add: object_prototype_def)
  have 2: "filter (\<lambda>f. f \<in> fst ` set FEATURES) [''ui'', ''bogus''] = [''ui'']"
    by (simp add: FEATURES_def)
  from unknown_features_skipped[OF 1, of "''demo''" "''npm''" "[''jotai'']"] 1 2
  show ?thesis by simp
qed

section \<open>The deploy feature\<close>

lemma snd_then_step_None:
  "snd (then_step s t) = None \<longleftrightarrow> snd s = None \<and> snd t = None"
  by (cases s; cases t; cases "snd s") auto

lemma scaffold_deploy_error:
  assumes "''deploy'' \<in> set (or_default [] (ans_features result))"
  shows "snd (scaffold cwd result) \<noteq> None"
proof -
  have "snd (createConfigFiles r (or_default [] (ans_features result))) \<noteq> None" for r
    using assms by (simp add: createConfigFiles_def)
  then show ?thesis
    by (simp add: scaffold_def Let_def snd_then_step_None)
qed

text \<open>
  Claim C2. With \<^verbatim>\<open>deploy\<close> among the features, the generated
  \<^verbatim>\<open>vite.config.ts\<close> imports the Cloudflare plugin, lists it among the plugins
  and has the build block; but \<^verbatim>\<open>createConfigFiles\<close> throws a ReferenceError
  when it builds the content of \<^verbatim>\<open>wrangler.json\<close>, so that file is not among
  the files it writes, and a run that reaches the scaffolding ends with exit status 1. For a
  catalog selection (and locale names without a path separator) none of
  \<^verbatim>\<open>wrangler.json\<close>, \<^verbatim>\<open>README.md\<close> and
  \<^verbatim>\<open>.gitignore\<close> is among the files of the run.
\<close>

theorem deploy_throws_before_wrangler:
  assumes "''deploy'' \<in> set features"
  shows "snd (createConfigFiles root features) = Some ReferenceError
       \<and> path_join root ''wrangler.json''
           \<notin> set (written_paths (fst (createConfigFiles root features)))
       \<and> (ans_features result = Some features
            \<and> \<not> existsSync (path_join cwd (ans_projectName result))
          \<longrightarrow> exit_status (init (Answered result) cwd existsSync) = 1)
       \<and> (ans_features result = Some features \<and> set features \<subseteq> fst ` set FEATURES
            \<and> list_all plain_name (or_default [''en''] (ans_languages result))
          \<longrightarrow> path_join (path_join cwd (ans_projectName result)) ''wrangler.json''
                \<notin> set (run_written result cwd)
              \<and> path_join (path_join cwd (ans_projectName result)) ''README.md''
                \<notin> set (run_written result cwd)
              \<and> path_join (path_join cwd (ans_projectName result)) ''.gitignore''
                \<notin> set (run_written result cwd))
       \<and> getViteConfig features
           = vite_config_1 @ vite_deploy_import @ vite_config_2 @ vite_deploy_plugin
             @ vite_config_3 @ vite_deploy_build @ vite_config_4"
proof -
  have 4: "getViteConfig features
           = vite_config_1 @ vite_deploy_import @ vite_config_2 @ vite_deploy_plugin
             @ vite_config_3 @ vite_deploy_build @ vite_config_4"
    using assms by (simp add: getViteConfig_def)
  have 1: "snd (createConfigFiles root features) = Some ReferenceError"
    using assms by (simp add: createConfigFiles_def)
  have 2: "path_join root ''wrangler.json''
           \<notin> set (written_paths (fst (createConfigFiles root features)))"
    by (simp add: createConfigFiles_def path_join_def)
  have 3: "exit_status (init (Answered result) cwd existsSync) = 1"
    if "ans_features result = Some features"
       "\<not> existsSync (path_join cwd (ans_projectName result))"
  proof -
    from that(1) assms have "''deploy'' \<in> set (or_default [] (ans_features result))"
      by (simp add: or_default_def)
    from scaffold_deploy_error[OF this, of cwd] that(2) show ?thesis
      by (cases "scaffold cwd result") (auto simp: init_def split: option.splits)
  qed
  have 5: "path_join (path_join cwd (ans_projectName result)) ''wrangler.json''
                \<notin> set (run_written result cwd)
              \<and> path_join (path_join cwd (ans_projectName result)) ''README.md''
                \<notin> set (run_written result cwd)
              \<and> path_join (path_join cwd (ans_projectName result)) ''.gitignore''
                \<notin> set (run_written result cwd)"
    if "ans_features result = Some features" "set features \<subseteq> fst ` set FEATURES"
  proof -
    from that have v: "set (or_default [] (ans_features result)) \<subseteq> fst ` set FEATURES"
      and "''deploy'' \<in> set (or_default [] (ans_features result))"
      using assms by (simp_all add: or_default_def)
    then show ?thesis
      by (simp add: run_written_wrangler[OF v] run_written_tail[OF v])
  qed
  from 1 2 3 4 5 show ?thesis by blast
qed

theorem deploy_throws_before_wrangler_witness:
  "''deploy'' \<in> set [''deploy'']
   \<and> init (Answered (demo_answers ''npm'' [''deploy''] True)) ''/work'' (\<lambda>p. False)
     = \<lparr>exit_status = 1,
        fs_ops =
          [Mkdir ''/work/demo'',
           WriteFile ''/work/demo/package.json''
             (JSON_stringify (pkg_json
                ((base_pkg ''demo'')
                   \<lparr>dependencies := dependencies (base_pkg ''demo'')
                        @ [(''@cloudflare/vite-plugin'', ''latest'')],
                    devDependencies := devDependencies (base_pkg ''demo'')
                        @ [(''wrangler'', ''latest'')]\<rparr>)))]
          @ createBaseStructure ''/work/demo''
          @ [WriteFile ''/work/demo/tsconfig.json'' (JSON_stringify (tsconfig_json [''deploy''])),
             WriteFile ''/work/demo/vite.config.ts''
               (vite_config_1 @ vite_deploy_import @ vite_config_2 @ vite_deploy_plugin
                @ vite_config_3 @ vite_deploy_build @ vite_config_4),
             WriteFile ''/work/demo/.env.example'' env_example]\<rparr>"
proof -
  have h: "''deploy'' \<in> set [''deploy'']" by simp
  have "exit_status (init (Answered (demo_answers ''npm'' [''deploy''] True)) ''/work'' (\<lambda>p. False)) = 1"
    using deploy_throws_before_wrangler[OF h, of "''/work/demo''" "demo_answers ''npm'' [''deploy''] True" "\<lambda>p. False" "''/work''"]
    by (simp add: demo_answers_def)
  moreover have "fs_ops (init (Answered (demo_answers ''npm'' [''deploy''] True)) ''/work'' (\<lambda>p. False))
     = [Mkdir ''/work/demo'',
           WriteFile ''/work/demo/package.json''
             (JSON_stringify (pkg_json
                ((base_pkg ''demo'')
                   \<lparr>dependencies := dependencies (base_pkg ''demo'')
                        @ [(''@cloudflare/vite-plugin'', ''latest'')],
                    devDependencies := devDependencies (base_pkg ''demo'')
                        @ [(''wrangler'', ''latest'')]\<rparr>)))]
          @ createBaseStructure ''/work/demo''
          @ [WriteFile ''/work/demo/tsconfig.json'' (JSON_stringify (tsconfig_json [''deploy''])),
             WriteFile ''/work/demo/vite.config.ts''
               (vite_config_1 @ vite_deploy_import @ vite_config_2 @ vite_deploy_plugin
                @ vite_config_3 @ vite_deploy_build @ vite_config_4),
             WriteFile ''/work/demo/.env.example'' env_example]"
    by (simp add: run_simps getViteConfig_def path_join_def FEATURES_def base_pkg_def
          add_state_def add_scripts_def add_pnpm_def)
  ultimately show ?thesis using h
    by (cases "init (Answered (demo_answers ''npm'' [''deploy''] True)) ''/work'' (\<lambda>p. False)") simp
qed

section \<open>The order of the features\<close>







section \<open>Repeated locales\<close>

text \<open>
  Claim C4, as stated, fails: the locale list is not de-duplicated. With the list
  \<^verbatim>\<open>["en", "en"]\<close> the i18n setup writes \<^verbatim>\<open>messages/en.json\<close> twice
  (and puts both values into \<^verbatim>\<open>settings.json\<close>).
\<close>

theorem repeated_locale_written_twice:
  "written_paths (createI18nSetup ''/work/demo'' [''en'', ''en''] ''en'')
     = [''/work/demo/project.inlang/settings.json'',
        ''/work/demo/messages/en.json'',
        ''/work/demo/messages/en.json'']
   \<and> count_list (written_paths (createI18nSetup ''/work/demo'' [''en'', ''en''] ''en''))
        (message_path ''/work/demo'' ''en'') = 2
   \<and> json_field (settings_json [''en'', ''en''] ''en'') ''locales''
       = Some (JArray [JString ''en'', JString ''en''])"
  by (simp add: written_paths_createI18nSetup message_path_def path_join_def
        settings_json_def str_array_def)

text \<open>
  Claim C4, amended. When i18n is set up for a list of locales whose names have no path
  separator, then for every locale \<open>l\<close> of the list the number of writes that target
  \<^verbatim>\<open>messages/l.json\<close> is the number of times \<open>l\<close> occurs in the list: exactly one
  when the list has no repeated value, and a repeated value is written again, not
  de-duplicated. Every such write has the same content, the serialization of an object
  with the two keys \<^verbatim>\<open>welcome\<close> and \<^verbatim>\<open>description\<close>, in this order.
  The same count holds among all the files of a run whose catalog selection has
  \<^verbatim>\<open>i18n\<close>: no other step writes a message file.
\<close>

theorem locale_files_per_occurrence:
  assumes "l \<in> set languages" and "list_all plain_name languages"
  shows "count_list (written_paths (createI18nSetup root languages baseLocale))
           (message_path root l) = count_list languages l
       \<and> 0 < count_list languages l
       \<and> (distinct languages \<longrightarrow>
            count_list (written_paths (createI18nSetup root languages baseLocale))
              (message_path root l) = 1)
       \<and> WriteFile (message_path root l) (JSON_stringify (message_json l))
            \<in> set (createI18nSetup root languages baseLocale)
       \<and> (\<forall>c. WriteFile (message_path root l) c
                  \<in> set (createI18nSetup root languages baseLocale)
               \<longrightarrow> c = JSON_stringify (message_json l))
       \<and> message_json l = JObject [(''welcome'', JString (welcome_phrase l)),
                                   (''description'', JString (description_phrase l))]
       \<and> (ans_languages result = Some languages
            \<and> set (or_default [] (ans_features result)) \<subseteq> fst ` set FEATURES
            \<and> ''i18n'' \<in> set (or_default [] (ans_features result))
          \<longrightarrow> count_list (run_written result cwd)
                (message_path (path_join cwd (ans_projectName result)) l)
              = count_list languages l)"
proof -
  have 1: "count_list (written_paths (createI18nSetup root languages baseLocale))
           (message_path root l) = count_list languages l"
    using settings_not_message[of root l]
    by (simp add: written_paths_createI18nSetup count_list_map_conv[OF inj_message_path])
  have 2: "0 < count_list languages l"
    using assms(1) count_list_0_iff[of languages l] by auto
  have 3: "distinct languages \<longrightarrow>
            count_list (written_paths (createI18nSetup root languages baseLocale))
              (message_path root l) = 1"
    using assms(1) unfolding 1 by (simp add: count_list_distinct)
  have 4: "WriteFile (message_path root l) (JSON_stringify (message_json l))
            \<in> set (createI18nSetup root languages baseLocale)"
  proof -
    have "WriteFile (message_path root l) (JSON_stringify (message_json l))
            \<in> (\<lambda>lang. WriteFile (message_path root lang) (JSON_stringify (message_json lang)))
                ` set languages"
      using assms(1) by (rule rev_image_eqI) simp
    then show ?thesis
      by (simp add: createI18nSetup_def Let_def message_path_def)
  qed
  have 5: "\<forall>c. WriteFile (message_path root l) c
                  \<in> set (createI18nSetup root languages baseLocale)
               \<longrightarrow> c = JSON_stringify (message_json l)"
    using createI18nSetup_content by blast
  have 6: "message_json l = JObject [(''welcome'', JString (welcome_phrase l)),
                                   (''description'', JString (description_phrase l))]"
    by (simp add: message_json_def)
  have 7: "ans_languages result = Some languages
            \<and> set (or_default [] (ans_features result)) \<subseteq> fst ` set FEATURES
            \<and> ''i18n'' \<in> set (or_default [] (ans_features result))
          \<longrightarrow> count_list (run_written result cwd)
                (message_path (path_join cwd (ans_projectName result)) l)
              = count_list languages l"
    using run_written_messages[of result cwd l] by (auto simp: or_default_def)
  show ?thesis
    by (intro conjI) (rule 1, rule 2, rule 3, rule 4, rule 5, rule 6, rule 7)
qed

theorem locale_files_per_occurrence_witness:
  "''vi'' \<in> set [''en'', ''vi'', ''ja''] \<and> list_all plain_name [''en'', ''vi'', ''ja'']
   \<and> distinct [''en'', ''vi'', ''ja'']
   \<and> count_list (written_paths (createI18nSetup ''/work/demo'' [''en'', ''vi'', ''ja''] ''en''))
        (message_path ''/work/demo'' ''vi'') = 1
   \<and> WriteFile ''/work/demo/messages/vi.json'' vi_json_text
        \<in> set (createI18nSetup ''/work/demo'' [''en'', ''vi'', ''ja''] ''en'')
   \<and> ''en'' \<in> set [''en'', ''vi'', ''en''] \<and> list_all plain_name [''en'', ''vi'', ''en'']
   \<and> count_list (written_paths (createI18nSetup ''/work/demo'' [''en'', ''vi'', ''en''] ''en''))
        (message_path ''/work/demo'' ''en'') = 2
   \<and> count_list (run_written i18n_answers ''/work'') (message_path ''/work/demo'' ''vi'') = 1"
proof -
  have 1: "''vi'' \<in> set [''en'', ''vi'', ''ja'']" by simp
  have 2: "list_all plain_name [''en'', ''vi'', ''ja'']" by (simp add: plain_name_def)
  have 3: "distinct [''en'', ''vi'', ''ja'']" by simp
  have 4: "''en'' \<in> set [''en'', ''vi'', ''en'']" by simp
  have 5: "list_all plain_name [''en'', ''vi'', ''en'']" by (simp add: plain_name_def)
  have p: "message_path ''/work/demo'' ''vi'' = ''/work/demo/messages/vi.json''"
    by (simp add: message_path_def path_join_def)
  from locale_files_per_occurrence[OF 1 2, of "''/work/demo''" "''en''"] 3
  have a: "count_list (written_paths (createI18nSetup ''/work/demo'' [''en'', ''vi'', ''ja''] ''en''))
        (message_path ''/work/demo'' ''vi'') = 1"
    and b: "WriteFile ''/work/demo/messages/vi.json'' vi_json_text
        \<in> set (createI18nSetup ''/work/demo'' [''en'', ''vi'', ''ja''] ''en'')"
    unfolding p JSON_stringify_message_vi by blast+
  from locale_files_per_occurrence[OF 4 5, of "''/work/demo''" "''en''"]
  have c: "count_list (written_paths (createI18nSetup ''/work/demo'' [''en'', ''vi'', ''en''] ''en''))
        (message_path ''/work/demo'' ''en'') = 2"
    by simp
  have 6: "''vi'' \<in> set [''en'', ''vi'']" by simp
  have 7: "list_all plain_name [''en'', ''vi'']" by (simp add: plain_name_def)
  from locale_files_per_occurrence[OF 6 7, of "''/work/demo''" "''en''" i18n_answers "''/work''"]
  have d: "count_list (run_written i18n_answers ''/work'') (message_path ''/work/demo'' ''vi'') = 1"
    by (simp add: i18n_answers_def or_default_def FEATURES_def path_join_def)
  from 1 2 3 4 5 a b c d show ?thesis by blast
qed

section \<open>The pnpm overrides block\<close>



section \<open>English and Vietnamese\<close>

lemma i18n_run:
  "init (Answered i18n_answers) ''/work'' fresh_disk
     = \<lparr>exit_status = 0,
        fs_ops =
          [Mkdir ''/work/demo'',
           WriteFile ''/work/demo/package.json''
             (JSON_stringify (pkg_json
                ((base_pkg ''demo'')
                   \<lparr>scripts := scripts (base_pkg ''demo'') @ i18n_scripts,
                    dependencies := dependencies (base_pkg ''demo'')
                      @ [(''@inlang/cli'', ''latest''), (''@inlang/paraglide-js'', ''latest'')]\<rparr>)))]
          @ createBaseStructure ''/work/demo''
          @ createI18nSetup ''/work/demo'' [''en'', ''vi''] ''en''
          @ [WriteFile ''/work/demo/tsconfig.json'' (JSON_stringify (tsconfig_json [''i18n''])),
             WriteFile ''/work/demo/vite.config.ts'' (getViteConfig [''i18n'']),
             WriteFile ''/work/demo/.env.example'' env_example,
             WriteFile ''/work/demo/README.md''
               (readme_text ''demo''
                  [''- '' @ [CHR 0xE2, CHR 0x9C, CHR 0x85] @ '' Internationalization (i18n)'']
                  [''i18n''] ''npm'')]\<rparr>"
  by (simp add: init_def scaffold_def or_default_def generatePackageJson_def FEATURES_get_simps
        createConfigFiles_def createReadme_def feature_setup_def i18n_answers_def Let_def
        fresh_disk_def path_join_def FEATURES_def base_pkg_def add_state_def add_scripts_def
        add_pnpm_def i18n_scripts_def)

lemma createI18nSetup_en_vi:
  "createI18nSetup root [''en'', ''vi''] baseLocale
     = [Mkdir (path_join root ''project.inlang''),
        WriteFile (path_join (path_join root ''project.inlang'') ''settings.json'')
          (JSON_stringify (settings_json [''en'', ''vi''] baseLocale)),
        Mkdir (path_join root ''messages''),
        WriteFile (message_path root ''en'') en_json_text,
        WriteFile (message_path root ''vi'') vi_json_text]"
  by (simp add: createI18nSetup_def Let_def message_path_def JSON_stringify_message_en
        JSON_stringify_message_vi)

lemma message_json_fallback: "lang \<noteq> ''vi'' \<Longrightarrow> message_json lang = message_json ''en''"
  by (simp add: message_json_def welcome_phrase_def description_phrase_def)

text \<open>
  Claim C6. For the locales \<^verbatim>\<open>["en", "vi"]\<close> the i18n setup writes, besides
  \<^verbatim>\<open>settings.json\<close>, exactly the two message files \<^verbatim>\<open>messages/en.json\<close>
  and \<^verbatim>\<open>messages/vi.json\<close>; the second holds the two Vietnamese phrases under
  \<^verbatim>\<open>welcome\<close> and \<^verbatim>\<open>description\<close>. Every locale other than
  \<^verbatim>\<open>vi\<close> gets the content of the English file. The manifest of a catalog
  selection with \<^verbatim>\<open>i18n\<close> has the script \<^verbatim>\<open>machine-translate\<close>, which
  the base manifest has not. The run of the example (i18n alone, English and Vietnamese,
  base locale English) completes and performs the setup.
\<close>

theorem i18n_en_vi_files:
  "createI18nSetup root [''en'', ''vi''] baseLocale
     = [Mkdir (path_join root ''project.inlang''),
        WriteFile (path_join (path_join root ''project.inlang'') ''settings.json'')
          (JSON_stringify (settings_json [''en'', ''vi''] baseLocale)),
        Mkdir (path_join root ''messages''),
        WriteFile (message_path root ''en'') en_json_text,
        WriteFile (message_path root ''vi'') vi_json_text]
   \<and> message_json ''vi'' = JObject [(''welcome'', JString vi_welcome),
                                      (''description'', JString vi_description)]
   \<and> (lang \<noteq> ''vi'' \<longrightarrow>
        message_json lang = JObject [(''welcome'', JString ''Welcome to your new app!''),
                                     (''description'', JString ''Start building something amazing'')]
        \<and> JSON_stringify (message_json lang) = en_json_text)
   \<and> (''i18n'' \<in> set features \<and> set features \<subseteq> fst ` set FEATURES \<longrightarrow>
        (\<exists>p. generatePackageJson nm features packageManager stateLibs = Inr p
           \<and> map_of (scripts p) ''machine-translate''
               = Some ''inlang machine translate --project project.inlang''))
   \<and> map_of (scripts (base_pkg nm)) ''machine-translate'' = None
   \<and> exit_status (init (Answered i18n_answers) ''/work'' fresh_disk) = 0
   \<and> written_paths (fs_ops (init (Answered i18n_answers) ''/work'' fresh_disk))
       = [''/work/demo/package.json'', ''/work/demo/src/client.tsx'',
          ''/work/demo/src/server.ts'', ''/work/demo/src/router.tsx'',
          ''/work/demo/src/routes/__root.tsx'', ''/work/demo/src/routes/index.tsx'',
          ''/work/demo/src/styles/global.css'',
          ''/work/demo/project.inlang/settings.json'',
          ''/work/demo/messages/en.json'', ''/work/demo/messages/vi.json'',
          ''/work/demo/tsconfig.json'', ''/work/demo/vite.config.ts'',
          ''/work/demo/.env.example'', ''/work/demo/README.md'']"
proof -
  have 2: "message_json ''vi'' = JObject [(''welcome'', JString vi_welcome),
                                      (''description'', JString vi_description)]"
    by (simp add: message_json_def welcome_phrase_def description_phrase_def)
  have 3: "lang \<noteq> ''vi'' \<longrightarrow>
        message_json lang = JObject [(''welcome'', JString ''Welcome to your new app!''),
                                     (''description'', JString ''Start building something amazing'')]
        \<and> JSON_stringify (message_json lang) = en_json_text"
    using JSON_stringify_message_en message_json_fallback[of lang]
    by (auto simp: message_json_def welcome_phrase_def description_phrase_def)
  have 4: "\<exists>p. generatePackageJson nm features packageManager stateLibs = Inr p
           \<and> map_of (scripts p) ''machine-translate''
               = Some ''inlang machine translate --project project.inlang''"
    if "''i18n'' \<in> set features" "set features \<subseteq> fst ` set FEATURES"
  proof -
    from generatePackageJson_total[OF that(2)]
    obtain p where p: "generatePackageJson nm features packageManager stateLibs = Inr p"
      by blast
    have "map_of (scripts p) ''machine-translate''
               = Some ''inlang machine translate --project project.inlang''"
      using that(1)
      by (simp add: generatePackageJson_scripts[OF p] selected_scripts_def i18n_scripts_def
            base_pkg_def)
    with p show ?thesis by blast
  qed
  have 5: "map_of (scripts (base_pkg nm)) ''machine-translate'' = None"
    by (simp add: base_pkg_def)
  have 6: "exit_status (init (Answered i18n_answers) ''/work'' fresh_disk) = 0"
    by (simp add: i18n_run)
  have 7: "written_paths (fs_ops (init (Answered i18n_answers) ''/work'' fresh_disk))
       = [''/work/demo/package.json'', ''/work/demo/src/client.tsx'',
          ''/work/demo/src/server.ts'', ''/work/demo/src/router.tsx'',
          ''/work/demo/src/routes/__root.tsx'', ''/work/demo/src/routes/index.tsx'',
          ''/work/demo/src/styles/global.css'',
          ''/work/demo/project.inlang/settings.json'',
          ''/work/demo/messages/en.json'', ''/work/demo/messages/vi.json'',
          ''/work/demo/tsconfig.json'', ''/work/demo/vite.config.ts'',
          ''/work/demo/.env.example'', ''/work/demo/README.md'']"
    by (simp add: i18n_run createBaseStructure_def written_paths_createI18nSetup
          message_path_def path_join_def)
  from createI18nSetup_en_vi[of root baseLocale] 2 3 4 5 6 7 show ?thesis by blast
qed

theorem i18n_en_vi_files_witness:
  "''ja'' \<noteq> ''vi''
   \<and> JSON_stringify (message_json ''ja'') = en_json_text
   \<and> ''i18n'' \<in> set [''i18n''] \<and> set [''i18n''] \<subseteq> fst ` set FEATURES
   \<and> (\<exists>p. generatePackageJson ''demo'' [''i18n''] ''npm'' [''jotai''] = Inr p
           \<and> map_of (scripts p) ''machine-translate''
               = Some ''inlang machine translate --project project.inlang'')
   \<and> written_paths (createI18nSetup ''/work/demo'' [''en'', ''vi''] ''en'')
       = [''/work/demo/project.inlang/settings.json'',
          ''/work/demo/messages/en.json'', ''/work/demo/messages/vi.json'']"
proof -
  have 1: "''ja'' \<noteq> ''vi''" by simp
  have 2: "''i18n'' \<in> set [''i18n'']" by simp
  have 3: "set [''i18n''] \<subseteq> fst ` set FEATURES" by (simp add: FEATURES_def)
  note t = i18n_en_vi_files[of "''/work/demo''" "''en''" "''ja''" "[''i18n'']" "''demo''" "''npm''"
      "[''jotai'']"]
  from t 1 have a: "JSON_stringify (message_json ''ja'') = en_json_text" by blast
  from t 2 3 have b: "\<exists>p. generatePackageJson ''demo'' [''i18n''] ''npm'' [''jotai''] = Inr p
           \<and> map_of (scripts p) ''machine-translate''
               = Some ''inlang machine translate --project project.inlang''"
    by blast
  from t have "createI18nSetup ''/work/demo'' [''en'', ''vi''] ''en''
     = [Mkdir (path_join ''/work/demo'' ''project.inlang''),
        WriteFile (path_join (path_join ''/work/demo'' ''project.inlang'') ''settings.json'')
          (JSON_stringify (settings_json [''en'', ''vi''] ''en'')),
        Mkdir (path_join ''/work/demo'' ''messages''),
        WriteFile (message_path ''/work/demo'' ''en'') en_json_text,
        WriteFile (message_path ''/work/demo'' ''vi'') vi_json_text]"
    by blast
  then have c: "written_paths (createI18nSetup ''/work/demo'' [''en'', ''vi''] ''en'')
       = [''/work/demo/project.inlang/settings.json'',
          ''/work/demo/messages/en.json'', ''/work/demo/messages/vi.json'']"
    by (simp add: message_path_def path_join_def)
  from 1 2 3 a b c show ?thesis by blast
qed

section \<open>Aborting before any mutation\<close>

text \<open>
  Claim C7. Cancelling a prompt, whichever question it is, ends the run with exit status 1
  and no file system operation at all; so does an answered prompt whose target directory
  exists. The check stands before the first mutation: when the target does not exist, the
  run starts by creating it.
\<close>

theorem abort_before_mutation:
  "init (Cancelled question) cwd existsSync = \<lparr>exit_status = 1, fs_ops = []\<rparr>
   \<and> (existsSync (path_join cwd (ans_projectName result)) \<longrightarrow>
        init (Answered result) cwd existsSync = \<lparr>exit_status = 1, fs_ops = []\<rparr>)
   \<and> (\<not> existsSync (path_join cwd (ans_projectName result)) \<longrightarrow>
        (\<exists>ops. fs_ops (init (Answered result) cwd existsSync)
                 = Mkdir (path_join cwd (ans_projectName result)) # ops))"
proof -
  from scaffold_starts_with_mkdir[of cwd result]
  obtain ops where "fst (scaffold cwd result) = Mkdir (path_join cwd (ans_projectName result)) # ops"
    by blast
  then show ?thesis
    by (cases "scaffold cwd result") (auto simp: init_def split: option.splits)
qed

theorem abort_before_mutation_witness:
  "init (Cancelled ''features'') ''/work'' (\<lambda>p. p = ''/work/demo'')
     = \<lparr>exit_status = 1, fs_ops = []\<rparr>
   \<and> path_join ''/work'' (ans_projectName (demo_answers ''npm'' [''ui''] True)) = ''/work/demo''
   \<and> init (Answered (demo_answers ''npm'' [''ui''] True)) ''/work'' (\<lambda>p. p = ''/work/demo'')
     = \<lparr>exit_status = 1, fs_ops = []\<rparr>
   \<and> (\<exists>ops. fs_ops (init (Answered (demo_answers ''npm'' [''ui''] True)) ''/work'' (\<lambda>p. False))
              = Mkdir ''/work/demo'' # ops)"
  using abort_before_mutation[of "''features''" "''/work''" "\<lambda>p. p = ''/work/demo''"
          "demo_answers ''npm'' [''ui''] True"]
        abort_before_mutation[of "''features''" "''/work''" "\<lambda>p. False"
          "demo_answers ''npm'' [''ui''] True"]
  by (simp add: path_join_def demo_answers_def)

section \<open>State libraries\<close>

lemma state_lib_selected:
  "''jotai'' \<in> set (selected_packages features stateLibs)
     \<longleftrightarrow> ''state'' \<in> set features \<and> ''jotai'' \<in> set stateLibs"
  "''zustand'' \<in> set (selected_packages features stateLibs)
     \<longleftrightarrow> ''state'' \<in> set features \<and> ''zustand'' \<in> set stateLibs"
  using feature_packages_fresh(2)[of "''jotai''"] feature_packages_fresh(3)[of "''zustand''"]
  by (auto simp: set_selected_packages)

lemma state_lib_not_dev:
  "''jotai'' \<notin> set (selected_devPackages features)"
  "''zustand'' \<notin> set (selected_devPackages features)"
  using feature_devPackages_fresh(2)[of "''jotai''"] feature_devPackages_fresh(3)[of "''zustand''"]
  by (auto simp: selected_devPackages_def)

text \<open>
  Claim C8. With \<^verbatim>\<open>state\<close> among the catalog features of the selection, the
  manifest has the dependency \<^verbatim>\<open>jotai\<close> exactly when \<^verbatim>\<open>jotai\<close> is among
  the chosen state libraries, and \<^verbatim>\<open>zustand\<close> exactly when
  \<^verbatim>\<open>zustand\<close> is; neither is ever a devDependency. The state setup creates
  \<^verbatim>\<open>src/store\<close> and writes \<^verbatim>\<open>src/store/jotaiStore.ts\<close>, a module that
  imports \<^verbatim>\<open>atom\<close> from \<^verbatim>\<open>jotai\<close>, and
  \<^verbatim>\<open>src/store/zustandStore.ts\<close>, a module that imports \<^verbatim>\<open>create\<close> from
  \<^verbatim>\<open>zustand\<close>, under the same conditions, each with the text given below, and does
  nothing else. Among all the operations of a run with these answers (and locale names
  without a path separator), in a working directory where nothing exists yet, a write to
  either path occurs under the same condition and only with that text. So
  \<^verbatim>\<open>["jotai"]\<close> gives the jotai dependency and store and nothing of zustand,
  \<^verbatim>\<open>["zustand"]\<close> the converse, and both give both.
\<close>

theorem state_libraries_exclusive:
  assumes "''state'' \<in> set features" and "set features \<subseteq> fst ` set FEATURES"
  shows "\<exists>p. generatePackageJson nm features packageManager stateLibs = Inr p
           \<and> map_of (dependencies p) ''jotai''
               = (if ''jotai'' \<in> set stateLibs then Some ''latest'' else None)
           \<and> map_of (dependencies p) ''zustand''
               = (if ''zustand'' \<in> set stateLibs then Some ''latest'' else None)
           \<and> map_of (devDependencies p) ''jotai'' = None
           \<and> map_of (devDependencies p) ''zustand'' = None
           \<and> createStateSetup root stateLibs
               = [Mkdir (path_join root ''src/store'')]
                 @ (if ''jotai'' \<in> set stateLibs
                    then [WriteFile (path_join root ''src/store/jotaiStore.ts'')
                            (''import { atom } from 'jotai'\<newline>'' @
                             ''\<newline>'' @
                             ''export const countAtom = atom(0)\<newline>'')]
                    else [])
                 @ (if ''zustand'' \<in> set stateLibs
                    then [WriteFile (path_join root ''src/store/zustandStore.ts'')
                            (''import { create } from 'zustand'\<newline>'' @
                             ''\<newline>'' @
                             ''type CounterState = {\<newline>'' @
                             ''  count: number\<newline>'' @
                             ''  increment: () => void\<newline>'' @
                             ''  decrement: () => void\<newline>'' @
                             ''}\<newline>'' @
                             ''\<newline>'' @
                             ''export const useCounterStore = create<CounterState>((set) => ({\<newline>'' @
                             ''  count: 0,\<newline>'' @
                             ''  increment: () => set((state) => ({ count: state.count + 1 })),\<newline>'' @
                             ''  decrement: () => set((state) => ({ count: state.count - 1 })),\<newline>'' @
                             ''}))\<newline>'')]
                    else [])
           \<and> written_paths (createStateSetup root stateLibs)
               = (if ''jotai'' \<in> set stateLibs
                  then [path_join root ''src/store/jotaiStore.ts''] else [])
                 @ (if ''zustand'' \<in> set stateLibs
                    then [path_join root ''src/store/zustandStore.ts''] else [])
           \<and> (ans_features result = Some features \<and> ans_stateLibs result = Some stateLibs
                \<and> list_all plain_name (or_default [''en''] (ans_languages result))
              \<longrightarrow>
                (path_join (path_join cwd (ans_projectName result)) ''src/store/jotaiStore.ts''
                   \<in> set (run_written result cwd) \<longleftrightarrow> ''jotai'' \<in> set stateLibs)
              \<and> (path_join (path_join cwd (ans_projectName result)) ''src/store/zustandStore.ts''
                   \<in> set (run_written result cwd) \<longleftrightarrow> ''zustand'' \<in> set stateLibs)
              \<and> (\<forall>c. WriteFile (path_join (path_join cwd (ans_projectName result))
                         ''src/store/jotaiStore.ts'') c
                       \<in> set (fs_ops (init (Answered result) cwd fresh_disk))
                     \<longleftrightarrow> ''jotai'' \<in> set stateLibs
                         \<and> c = ''import { atom } from 'jotai'\<newline>'' @
                                 ''\<newline>'' @
                                 ''export const countAtom = atom(0)\<newline>'')
              \<and> (\<forall>c. WriteFile (path_join (path_join cwd (ans_projectName result))
                         ''src/store/zustandStore.ts'') c
                       \<in> set (fs_ops (init (Answered result) cwd fresh_disk))
                     \<longleftrightarrow> ''zustand'' \<in> set stateLibs
                         \<and> c = ''import { create } from 'zustand'\<newline>'' @
                                 ''\<newline>'' @
                                 ''type CounterState = {\<newline>'' @
                                 ''  count: number\<newline>'' @
                                 ''  increment: () => void\<newline>'' @
                                 ''  decrement: () => void\<newline>'' @
                                 ''}\<newline>'' @
                                 ''\<newline>'' @
                                 ''export const useCounterStore = create<CounterState>((set) => ({\<newline>'' @
                                 ''  count: 0,\<newline>'' @
                                 ''  increment: () => set((state) => ({ count: state.count + 1 })),\<newline>'' @
                                 ''  decrement: () => set((state) => ({ count: state.count - 1 })),\<newline>'' @
                                 ''}))\<newline>''))"
proof -
  from generatePackageJson_total[OF assms(2)]
  obtain p where p: "generatePackageJson nm features packageManager stateLibs = Inr p"
    by blast
  have b: "map_of (dependencies (base_pkg nm)) ''jotai'' = None"
          "map_of (dependencies (base_pkg nm)) ''zustand'' = None"
          "map_of (devDependencies (base_pkg nm)) ''jotai'' = None"
          "map_of (devDependencies (base_pkg nm)) ''zustand'' = None"
    by (simp_all add: base_pkg_def)
  have 1: "map_of (dependencies p) ''jotai''
               = (if ''jotai'' \<in> set stateLibs then Some ''latest'' else None)"
    and 2: "map_of (dependencies p) ''zustand''
               = (if ''zustand'' \<in> set stateLibs then Some ''latest'' else None)"
    using assms(1)
    by (simp_all add: generatePackageJson_dependencies[OF p] state_lib_selected b)
  have 3: "map_of (devDependencies p) ''jotai'' = None"
    and 4: "map_of (devDependencies p) ''zustand'' = None"
    by (simp_all add: generatePackageJson_devDependencies[OF p] state_lib_not_dev b)
  have 5: "createStateSetup root stateLibs
             = [Mkdir (path_join root ''src/store'')]
               @ (if ''jotai'' \<in> set stateLibs
                  then [WriteFile (path_join root ''src/store/jotaiStore.ts'')
                          (''import { atom } from 'jotai'\<newline>'' @
                           ''\<newline>'' @
                           ''export const countAtom = atom(0)\<newline>'')]
                  else [])
               @ (if ''zustand'' \<in> set stateLibs
                  then [WriteFile (path_join root ''src/store/zustandStore.ts'')
                          (''import { create } from 'zustand'\<newline>'' @
                           ''\<newline>'' @
                           ''type CounterState = {\<newline>'' @
                           ''  count: number\<newline>'' @
                           ''  increment: () => void\<newline>'' @
                           ''  decrement: () => void\<newline>'' @
                           ''}\<newline>'' @
                           ''\<newline>'' @
                           ''export const useCounterStore = create<CounterState>((set) => ({\<newline>'' @
                           ''  count: 0,\<newline>'' @
                           ''  increment: () => set((state) => ({ count: state.count + 1 })),\<newline>'' @
                           ''  decrement: () => set((state) => ({ count: state.count - 1 })),\<newline>'' @
                           ''}))\<newline>'')]
                  else [])"
    by (simp add: createStateSetup_def jotaiStore_ts_def zustandStore_ts_def)
  have 6: "written_paths (createStateSetup root stateLibs)
               = (if ''jotai'' \<in> set stateLibs
                  then [path_join root ''src/store/jotaiStore.ts''] else [])
                 @ (if ''zustand'' \<in> set stateLibs
                    then [path_join root ''src/store/zustandStore.ts''] else [])"
    by (simp add: createStateSetup_def)
  have 7: "ans_features result = Some features \<and> ans_stateLibs result = Some stateLibs
                \<and> list_all plain_name (or_default [''en''] (ans_languages result))
              \<longrightarrow>
                (path_join (path_join cwd (ans_projectName result)) ''src/store/jotaiStore.ts''
                   \<in> set (run_written result cwd) \<longleftrightarrow> ''jotai'' \<in> set stateLibs)
              \<and> (path_join (path_join cwd (ans_projectName result)) ''src/store/zustandStore.ts''
                   \<in> set (run_written result cwd) \<longleftrightarrow> ''zustand'' \<in> set stateLibs)
              \<and> (\<forall>c. WriteFile (path_join (path_join cwd (ans_projectName result))
                         ''src/store/jotaiStore.ts'') c
                       \<in> set (fs_ops (init (Answered result) cwd fresh_disk))
                     \<longleftrightarrow> ''jotai'' \<in> set stateLibs
                         \<and> c = ''import { atom } from 'jotai'\<newline>'' @
                                 ''\<newline>'' @
                                 ''export const countAtom = atom(0)\<newline>'')
              \<and> (\<forall>c. WriteFile (path_join (path_join cwd (ans_projectName result))
                         ''src/store/zustandStore.ts'') c
                       \<in> set (fs_ops (init (Answered result) cwd fresh_disk))
                     \<longleftrightarrow> ''zustand'' \<in> set stateLibs
                         \<and> c = ''import { create } from 'zustand'\<newline>'' @
                                 ''\<newline>'' @
                                 ''type CounterState = {\<newline>'' @
                                 ''  count: number\<newline>'' @
                                 ''  increment: () => void\<newline>'' @
                                 ''  decrement: () => void\<newline>'' @
                                 ''}\<newline>'' @
                                 ''\<newline>'' @
                                 ''export const useCounterStore = create<CounterState>((set) => ({\<newline>'' @
                                 ''  count: 0,\<newline>'' @
                                 ''  increment: () => set((state) => ({ count: state.count + 1 })),\<newline>'' @
                                 ''  decrement: () => set((state) => ({ count: state.count - 1 })),\<newline>'' @
                                 ''}))\<newline>'')"
  proof (intro impI, elim conjE)
    assume f: "ans_features result = Some features"
      and l: "ans_stateLibs result = Some stateLibs"
    from f assms(2)
    have v: "set (or_default [] (ans_features result)) \<subseteq> fst ` set FEATURES"
      by (simp add: or_default_def)
    have x: "\<not> fresh_disk (path_join cwd (ans_projectName result))"
      by (simp add: fresh_disk_def)
    note w = store_write_in_run[where existsSync = fresh_disk, OF v x]
    from f l assms(1)
    have a: "path_join (path_join cwd (ans_projectName result)) ''src/store/jotaiStore.ts''
                   \<in> set (run_written result cwd) \<longleftrightarrow> ''jotai'' \<in> set stateLibs"
      and b: "path_join (path_join cwd (ans_projectName result)) ''src/store/zustandStore.ts''
                   \<in> set (run_written result cwd) \<longleftrightarrow> ''zustand'' \<in> set stateLibs"
      by (simp_all add: run_written_store[OF v] or_default_def)
    from f l assms(1)
    have c: "(\<forall>c. WriteFile (path_join (path_join cwd (ans_projectName result))
               ''src/store/jotaiStore.ts'') c
             \<in> set (fs_ops (init (Answered result) cwd fresh_disk))
           \<longleftrightarrow> ''jotai'' \<in> set stateLibs
               \<and> c = ''import { atom } from 'jotai'\<newline>'' @
                       ''\<newline>'' @
                       ''export const countAtom = atom(0)\<newline>'')"
      by (simp add: w(1) or_default_def jotaiStore_ts_def)
    from f l assms(1)
    have d: "(\<forall>c. WriteFile (path_join (path_join cwd (ans_projectName result))
               ''src/store/zustandStore.ts'') c
             \<in> set (fs_ops (init (Answered result) cwd fresh_disk))
           \<longleftrightarrow> ''zustand'' \<in> set stateLibs
               \<and> c = ''import { create } from 'zustand'\<newline>'' @
                       ''\<newline>'' @
                       ''type CounterState = {\<newline>'' @
                       ''  count: number\<newline>'' @
                       ''  increment: () => void\<newline>'' @
                       ''  decrement: () => void\<newline>'' @
                       ''}\<newline>'' @
                       ''\<newline>'' @
                       ''export const useCounterStore = create<CounterState>((set) => ({\<newline>'' @
                       ''  count: 0,\<newline>'' @
                       ''  increment: () => set((state) => ({ count: state.count + 1 })),\<newline>'' @
                       ''  decrement: () => set((state) => ({ count: state.count - 1 })),\<newline>'' @
                       ''}))\<newline>'')"
      by (simp add: w(2) or_default_def zustandStore_ts_def)
    from a b c d show "(path_join (path_join cwd (ans_projectName result)) ''src/store/jotaiStore.ts''
                   \<in> set (run_written result cwd) \<longleftrightarrow> ''jotai'' \<in> set stateLibs)
              \<and> (path_join (path_join cwd (ans_projectName result)) ''src/store/zustandStore.ts''
                   \<in> set (run_written result cwd) \<longleftrightarrow> ''zustand'' \<in> set stateLibs)
              \<and> (\<forall>c. WriteFile (path_join (path_join cwd (ans_projectName result))
                         ''src/store/jotaiStore.ts'') c
                       \<in> set (fs_ops (init (Answered result) cwd fresh_disk))
                     \<longleftrightarrow> ''jotai'' \<in> set stateLibs
                         \<and> c = ''import { atom } from 'jotai'\<newline>'' @
                                 ''\<newline>'' @
                                 ''export const countAtom = atom(0)\<newline>'')
              \<and> (\<forall>c. WriteFile (path_join (path_join cwd (ans_projectName result))
                         ''src/store/zustandStore.ts'') c
                       \<in> set (fs_ops (init (Answered result) cwd fresh_disk))
                     \<longleftrightarrow> ''zustand'' \<in> set stateLibs
                         \<and> c = ''import { create } from 'zustand'\<newline>'' @
                                 ''\<newline>'' @
                                 ''type CounterState = {\<newline>'' @
                                 ''  count: number\<newline>'' @
                                 ''  increment: () => void\<newline>'' @
                                 ''  decrement: () => void\<newline>'' @
                                 ''}\<newline>'' @
                                 ''\<newline>'' @
                                 ''export const useCounterStore = create<CounterState>((set) => ({\<newline>'' @
                                 ''  count: 0,\<newline>'' @
                                 ''  increment: () => set((state) => ({ count: state.count + 1 })),\<newline>'' @
                                 ''  decrement: () => set((state) => ({ count: state.count - 1 })),\<newline>'' @
                                 ''}))\<newline>'')"
      by (intro conjI)
  qed
  show ?thesis
    apply (rule exI[of _ p])
    apply (intro conjI)
    apply (rule p 1 2 3 4 5 6 7)+
    done
qed

theorem state_libraries_exclusive_witness:
  "''state'' \<in> set [''state''] \<and> set [''state''] \<subseteq> fst ` set FEATURES
   \<and> (\<exists>p. generatePackageJson ''demo'' [''state''] ''npm'' [''jotai''] = Inr p
          \<and> map_of (dependencies p) ''jotai'' = Some ''latest''
          \<and> map_of (dependencies p) ''zustand'' = None)
   \<and> createStateSetup ''/work/demo'' [''jotai'']
       = [Mkdir ''/work/demo/src/store'',
          WriteFile ''/work/demo/src/store/jotaiStore.ts''
            (''import { atom } from 'jotai'\<newline>'' @
             ''\<newline>'' @
             ''export const countAtom = atom(0)\<newline>'')]
   \<and> (\<exists>p. generatePackageJson ''demo'' [''state''] ''npm'' [''zustand''] = Inr p
          \<and> map_of (dependencies p) ''jotai'' = None
          \<and> map_of (dependencies p) ''zustand'' = Some ''latest'')
   \<and> createStateSetup ''/work/demo'' [''zustand'']
       = [Mkdir ''/work/demo/src/store'',
          WriteFile ''/work/demo/src/store/zustandStore.ts''
            (''import { create } from 'zustand'\<newline>'' @
             ''\<newline>'' @
             ''type CounterState = {\<newline>'' @
             ''  count: number\<newline>'' @
             ''  increment: () => void\<newline>'' @
             ''  decrement: () => void\<newline>'' @
             ''}\<newline>'' @
             ''\<newline>'' @
             ''export const useCounterStore = create<CounterState>((set) => ({\<newline>'' @
             ''  count: 0,\<newline>'' @
             ''  increment: () => set((state) => ({ count: state.count + 1 })),\<newline>'' @
             ''  decrement: () => set((state) => ({ count: state.count - 1 })),\<newline>'' @
             ''}))\<newline>'')]
   \<and> (\<exists>p. generatePackageJson ''demo'' [''state''] ''npm'' [''jotai'', ''zustand''] = Inr p
          \<and> map_of (dependencies p) ''jotai'' = Some ''latest''
          \<and> map_of (dependencies p) ''zustand'' = Some ''latest'')
   \<and> written_paths (createStateSetup ''/work/demo'' [''jotai'', ''zustand''])
       = [''/work/demo/src/store/jotaiStore.ts'', ''/work/demo/src/store/zustandStore.ts'']
   \<and> WriteFile ''/work/demo/src/store/zustandStore.ts''
        (''import { create } from 'zustand'\<newline>'' @
         ''\<newline>'' @
         ''type CounterState = {\<newline>'' @
         ''  count: number\<newline>'' @
         ''  increment: () => void\<newline>'' @
         ''  decrement: () => void\<newline>'' @
         ''}\<newline>'' @
         ''\<newline>'' @
         ''export const useCounterStore = create<CounterState>((set) => ({\<newline>'' @
         ''  count: 0,\<newline>'' @
         ''  increment: () => set((state) => ({ count: state.count + 1 })),\<newline>'' @
         ''  decrement: () => set((state) => ({ count: state.count - 1 })),\<newline>'' @
         ''}))\<newline>'')
       \<in> set (fs_ops (init (Answered ((demo_answers ''npm'' [''state''] False)
            \<lparr>ans_stateLibs := Some [''zustand'']\<rparr>)) ''/work'' fresh_disk))
   \<and> ''/work/demo/src/store/jotaiStore.ts''
       \<notin> set (run_written ((demo_answers ''npm'' [''state''] False)
            \<lparr>ans_stateLibs := Some [''zustand'']\<rparr>) ''/work'')"
proof -
  have 1: "''state'' \<in> set [''state'']" by simp
  have 2: "set [''state''] \<subseteq> fst ` set FEATURES" by (simp add: FEATURES_def)
  note t = state_libraries_exclusive[where nm = "''demo''" and packageManager = "''npm''"
      and root = "''/work/demo''" and cwd = "''/work''"
      and result = "(demo_answers ''npm'' [''state''] False)\<lparr>ans_stateLibs := Some [''zustand'']\<rparr>",
      OF 1 2]
  have a: "\<exists>p. generatePackageJson ''demo'' [''state''] ''npm'' [''jotai''] = Inr p
          \<and> map_of (dependencies p) ''jotai'' = Some ''latest''
          \<and> map_of (dependencies p) ''zustand'' = None"
    using t[of "[''jotai'']"] by auto
  have a': "createStateSetup ''/work/demo'' [''jotai'']
       = [Mkdir ''/work/demo/src/store'',
          WriteFile ''/work/demo/src/store/jotaiStore.ts''
            (''import { atom } from 'jotai'\<newline>'' @
             ''\<newline>'' @
             ''export const countAtom = atom(0)\<newline>'')]"
    using t[of "[''jotai'']"] by (auto simp: path_join_def)
  have b: "\<exists>p. generatePackageJson ''demo'' [''state''] ''npm'' [''zustand''] = Inr p
          \<and> map_of (dependencies p) ''jotai'' = None
          \<and> map_of (dependencies p) ''zustand'' = Some ''latest''"
    using t[of "[''zustand'']"] by auto
  have b': "createStateSetup ''/work/demo'' [''zustand'']
       = [Mkdir ''/work/demo/src/store'',
          WriteFile ''/work/demo/src/store/zustandStore.ts''
            (''import { create } from 'zustand'\<newline>'' @
             ''\<newline>'' @
             ''type CounterState = {\<newline>'' @
             ''  count: number\<newline>'' @
             ''  increment: () => void\<newline>'' @
             ''  decrement: () => void\<newline>'' @
             ''}\<newline>'' @
             ''\<newline>'' @
             ''export const useCounterStore = create<CounterState>((set) => ({\<newline>'' @
             ''  count: 0,\<newline>'' @
             ''  increment: () => set((state) => ({ count: state.count + 1 })),\<newline>'' @
             ''  decrement: () => set((state) => ({ count: state.count - 1 })),\<newline>'' @
             ''}))\<newline>'')]"
    using t[of "[''zustand'']"] by (auto simp: path_join_def)
  have c: "\<exists>p. generatePackageJson ''demo'' [''state''] ''npm'' [''jotai'', ''zustand''] = Inr p
          \<and> map_of (dependencies p) ''jotai'' = Some ''latest''
          \<and> map_of (dependencies p) ''zustand'' = Some ''latest''"
    using t[of "[''jotai'', ''zustand'']"] by auto
  have c': "written_paths (createStateSetup ''/work/demo'' [''jotai'', ''zustand''])
       = [''/work/demo/src/store/jotaiStore.ts'', ''/work/demo/src/store/zustandStore.ts'']"
    using t[of "[''jotai'', ''zustand'']"] by (auto simp: path_join_def)
  have h: "ans_features ((demo_answers ''npm'' [''state''] False)
               \<lparr>ans_stateLibs := Some [''zustand'']\<rparr>) = Some [''state'']
      \<and> ans_stateLibs ((demo_answers ''npm'' [''state''] False)
               \<lparr>ans_stateLibs := Some [''zustand'']\<rparr>) = Some [''zustand'']
      \<and> list_all plain_name (or_default [''en''] (ans_languages
            ((demo_answers ''npm'' [''state''] False)\<lparr>ans_stateLibs := Some [''zustand'']\<rparr>)))"
    by (simp add: demo_answers_def or_default_def plain_name_def)
  have n: "path_join (path_join ''/work'' (ans_projectName
        ((demo_answers ''npm'' [''state''] False)\<lparr>ans_stateLibs := Some [''zustand'']\<rparr>))) rel
      = ''/work/demo/'' @ rel" for rel
    by (simp add: demo_answers_def path_join_def)
  have d: "WriteFile ''/work/demo/src/store/zustandStore.ts''
        (''import { create } from 'zustand'\<newline>'' @
         ''\<newline>'' @
         ''type CounterState = {\<newline>'' @
         ''  count: number\<newline>'' @
         ''  increment: () => void\<newline>'' @
         ''  decrement: () => void\<newline>'' @
         ''}\<newline>'' @
         ''\<newline>'' @
         ''export const useCounterStore = create<CounterState>((set) => ({\<newline>'' @
         ''  count: 0,\<newline>'' @
         ''  increment: () => set((state) => ({ count: state.count + 1 })),\<newline>'' @
         ''  decrement: () => set((state) => ({ count: state.count - 1 })),\<newline>'' @
         ''}))\<newline>'')
       \<in> set (fs_ops (init (Answered ((demo_answers ''npm'' [''state''] False)
            \<lparr>ans_stateLibs := Some [''zustand'']\<rparr>)) ''/work'' fresh_disk))"
    and d': "''/work/demo/src/store/jotaiStore.ts''
       \<notin> set (run_written ((demo_answers ''npm'' [''state''] False)
            \<lparr>ans_stateLibs := Some [''zustand'']\<rparr>) ''/work'')"
    using t[of "[''zustand'']"] h unfolding n by auto
  from 1 2 a a' b b' c c' d d' show ?thesis by (intro conjI)
qed

section \<open>Adding a feature\<close>

text \<open>
  Claim C9. Let \<open>features'\<close> list every key that \<open>features\<close> lists (for instance
  \<open>features\<close> with one more key added, at any place), all of them catalog keys, with
  the same name, package manager and state libraries. Then both manifests are composed, and
  every entry (name and value) of the dependencies, the devDependencies and the scripts of
  the manifest for \<open>features\<close> is an entry of the manifest for \<open>features'\<close>: nothing
  is removed, and no value changes.
\<close>

theorem adding_features_keeps_entries:
  assumes "set features \<subseteq> set features'" and "set features' \<subseteq> fst ` set FEATURES"
  shows "\<exists>p p'. generatePackageJson nm features packageManager stateLibs = Inr p
           \<and> generatePackageJson nm features' packageManager stateLibs = Inr p'
           \<and> set (dependencies p) \<subseteq> set (dependencies p')
           \<and> set (devDependencies p) \<subseteq> set (devDependencies p')
           \<and> set (scripts p) \<subseteq> set (scripts p')"
  using assms by (rule manifest_entries_mono)

theorem adding_features_keeps_entries_witness:
  "set [''ui'', ''state''] \<subseteq> set [''testing'', ''ui'', ''state'']
   \<and> set [''testing'', ''ui'', ''state''] \<subseteq> fst ` set FEATURES
   \<and> (\<exists>p p'. generatePackageJson ''demo'' [''ui'', ''state''] ''npm'' [''zustand''] = Inr p
           \<and> generatePackageJson ''demo'' [''testing'', ''ui'', ''state''] ''npm'' [''zustand'']
               = Inr p'
           \<and> set (dependencies p) \<subseteq> set (dependencies p')
           \<and> set (devDependencies p) \<subseteq> set (devDependencies p')
           \<and> set (scripts p) \<subseteq> set (scripts p'))"
proof -
  have 1: "set [''ui'', ''state''] \<subseteq> set [''testing'', ''ui'', ''state'']" by simp
  have 2: "set [''testing'', ''ui'', ''state''] \<subseteq> fst ` set FEATURES"
    by (simp add: FEATURES_def)
  from adding_features_keeps_entries[OF 1 2, of "''demo''" "''npm''" "[''zustand'']"] 1 2
  show ?thesis by blast
qed

section \<open>The answer to the git question\<close>

text \<open>
  Claim (''deploy'' \<notin> set (or_default [] (ans_features result))
             \<longrightarrow> exit_status (init (Answered (result\<lparr>ans_initGit := True\<rparr>)) cwd existsSync) = 0
                 \<and> fs_ops (init (Answered (result\<lparr>ans_initGit := True\<rparr>)) cwd existsSync)
                     = fs_ops (init (Answered (result\<lparr>ans_initGit := False\<rparr>)) cwd existsSync)
                       @ [WriteFile (path_join (path_join cwd (ans_projectName result)) ''.gitignore'')
                            (''# Dependencies\<newline>'' @
                             ''node_modules\<newline>'' @
                             ''.pnp\<newline>'' @
                             ''.pnp.js\<newline>'' @
                             ''\<newline>'' @
                             ''# Testing\<newline>'' @
                             ''coverage\<newline>'' @
                             ''\<newline>'' @
                             ''# Production\<newline>'' @
                             ''dist\<newline>'' @
                             ''.output\<newline>'' @
                             ''.vinxi\<newline>'' @
                             ''.nitro\<newline>'' @
                             ''\<newline>'' @
                             ''# Misc\<newline>'' @
                             ''.DS_Store\<newline>'' @
                             ''*.pem\<newline>'' @
                             ''.env\<newline>'' @
                             ''.env.local\<newline>'' @
                             ''.env.development.local\<newline>'' @
                             ''.env.test.local\<newline>'' @
                             ''.env.production.local\<newline>'' @
                             ''\<newline>'' @
                             ''# Debug\<newline>'' @
                             ''npm-debug.log*\<newline>'' @
                             ''yarn-debug.log*\<newline>'' @
                             ''yarn-error.log*\<newline>'' @
                             ''pnpm-debug.log*\<newline>'' @
                             ''\<newline>'' @
                             ''# IDE\<newline>'' @
                             ''.vscode\<newline>'' @
                             ''.idea\<newline>'' @
                             ''*.swp\<newline>'' @
                             ''*.swo\<newline>'' @
                             ''*~\<newline>'' @
                             ''\<newline>'' @
                             ''# TanStack\<newline>'' @
                             ''.tanstack\<newline>'' @
                             ''routeTree.gen.ts\<newline>'')]). The answer to the git question is read once, in the last step of the run, which
  writes \<^verbatim>\<open>.gitignore\<close> with a fixed text into the project directory; the run
  performs no other kind of operation for it. For every input the run that answered yes
  ends with the exit status of the run that answered no, and performs the operations of
  the other, in the same order and with the same contents, followed by that one write when
  the run completes. For a selection of catalog features in a working directory where the
  target does not exist, \<^verbatim>\<open>.gitignore\<close> is written exactly when
  \<^verbatim>\<open>deploy\<close> is not among the features and the answer is yes, and then with the
  text given below. With \<^verbatim>\<open>deploy\<close> among the features the scaffolding throws
  the ReferenceError of \<^verbatim>\<open>createConfigFiles\<close> before the last step: the run
  that answered yes is equal to the run that answered no, both end with exit status 1, and
  no \<^verbatim>\<open>.gitignore\<close> is written. Without \<^verbatim>\<open>deploy\<close> both runs end
  with exit status 0 and the answer yes adds exactly the one write.
\<close>

theorem git_answer_lost_with_deploy:
  "exit_status (init (Answered (result\<lparr>ans_initGit := True\<rparr>)) cwd existsSync)
     = exit_status (init (Answered (result\<lparr>ans_initGit := False\<rparr>)) cwd existsSync)
   \<and> fs_ops (init (Answered (result\<lparr>ans_initGit := True\<rparr>)) cwd existsSync)
     = fs_ops (init (Answered (result\<lparr>ans_initGit := False\<rparr>)) cwd existsSync)
       @ (if exit_status (init (Answered (result\<lparr>ans_initGit := False\<rparr>)) cwd existsSync) = 0
          then [WriteFile (path_join (path_join cwd (ans_projectName result)) ''.gitignore'')
                  getGitignore]
          else [])
   \<and> (set (or_default [] (ans_features result)) \<subseteq> fst ` set FEATURES
        \<and> \<not> existsSync (path_join cwd (ans_projectName result))
      \<longrightarrow> (\<forall>c. WriteFile (path_join (path_join cwd (ans_projectName result)) ''.gitignore'') c
              \<in> set (fs_ops (init (Answered result) cwd existsSync))
            \<longleftrightarrow> ''deploy'' \<notin> set (or_default [] (ans_features result)) \<and> ans_initGit result
                \<and> c = ''# Dependencies\<newline>'' @
                        ''node_modules\<newline>'' @
                        ''.pnp\<newline>'' @
                        ''.pnp.js\<newline>'' @
                        ''\<newline>'' @
                        ''# Testing\<newline>'' @
                        ''coverage\<newline>'' @
                        ''\<newline>'' @
                        ''# Production\<newline>'' @
                        ''dist\<newline>'' @
                        ''.output\<newline>'' @
                        ''.vinxi\<newline>'' @
                        ''.nitro\<newline>'' @
                        ''\<newline>'' @
                        ''# Misc\<newline>'' @
                        ''.DS_Store\<newline>'' @
                        ''*.pem\<newline>'' @
                        ''.env\<newline>'' @
                        ''.env.local\<newline>'' @
                        ''.env.development.local\<newline>'' @
                        ''.env.test.local\<newline>'' @
                        ''.env.production.local\<newline>'' @
                        ''\<newline>'' @
                        ''# Debug\<newline>'' @
                        ''npm-debug.log*\<newline>'' @
                        ''yarn-debug.log*\<newline>'' @
                        ''yarn-error.log*\<newline>'' @
                        ''pnpm-debug.log*\<newline>'' @
                        ''\<newline>'' @
                        ''# IDE\<newline>'' @
                        ''.vscode\<newline>'' @
                        ''.idea\<newline>'' @
                        ''*.swp\<newline>'' @
                        ''*.swo\<newline>'' @
                        ''*~\<newline>'' @
                        ''\<newline>'' @
                        ''# TanStack\<newline>'' @
                        ''.tanstack\<newline>'' @
                        ''routeTree.gen.ts\<newline>'')
        \<and> (''deploy'' \<in> set (or_default [] (ans_features result))
            \<longrightarrow> init (Answered (result\<lparr>ans_initGit := True\<rparr>)) cwd existsSync
                  = init (Answered (result\<lparr>ans_initGit := False\<rparr>)) cwd existsSync
                \<and> exit_status (init (Answered (result\<lparr>ans_initGit := True\<rparr>)) cwd existsSync) = 1)
        \<and> (''deploy'' \<notin> set (or_default [] (ans_features result))
            \<longrightarrow> exit_status (init (Answered (result\<lparr>ans_initGit := True\<rparr>)) cwd existsSync) = 0
                \<and> fs_ops (init (Answered (result\<lparr>ans_initGit := True\<rparr>)) cwd existsSync)
                    = fs_ops (init (Answered (result\<lparr>ans_initGit := False\<rparr>)) cwd existsSync)
                      @ [WriteFile (path_join (path_join cwd (ans_projectName result)) ''.gitignore'')
                           (''# Dependencies\<newline>'' @
                            ''node_modules\<newline>'' @
                            ''.pnp\<newline>'' @
                            ''.pnp.js\<newline>'' @
                            ''\<newline>'' @
                            ''# Testing\<newline>'' @
                            ''coverage\<newline>'' @
                            ''\<newline>'' @
                            ''# Production\<newline>'' @
                            ''dist\<newline>'' @
                            ''.output\<newline>'' @
                            ''.vinxi\<newline>'' @
                            ''.nitro\<newline>'' @
                            ''\<newline>'' @
                            ''# Misc\<newline>'' @
                            ''.DS_Store\<newline>'' @
                            ''*.pem\<newline>'' @
                            ''.env\<newline>'' @
                            ''.env.local\<newline>'' @
                            ''.env.development.local\<newline>'' @
                            ''.env.test.local\<newline>'' @
                            ''.env.production.local\<newline>'' @
                            ''\<newline>'' @
                            ''# Debug\<newline>'' @
                            ''npm-debug.log*\<newline>'' @
                            ''yarn-debug.log*\<newline>'' @
                            ''yarn-error.log*\<newline>'' @
                            ''pnpm-debug.log*\<newline>'' @
                            ''\<newline>'' @
                            ''# IDE\<newline>'' @
                            ''.vscode\<newline>'' @
                            ''.idea\<newline>'' @
                            ''*.swp\<newline>'' @
                            ''*.swo\<newline>'' @
                            ''*~\<newline>'' @
                            ''\<newline>'' @
                            ''# TanStack\<newline>'' @
                            ''.tanstack\<newline>'' @
                            ''routeTree.gen.ts\<newline>'')]))"
proof -
  have 1: "exit_status (init (Answered (result\<lparr>ans_initGit := True\<rparr>)) cwd existsSync)
     = exit_status (init (Answered (result\<lparr>ans_initGit := False\<rparr>)) cwd existsSync)"
    and 2: "fs_ops (init (Answered (result\<lparr>ans_initGit := True\<rparr>)) cwd existsSync)
     = fs_ops (init (Answered (result\<lparr>ans_initGit := False\<rparr>)) cwd existsSync)
       @ (if exit_status (init (Answered (result\<lparr>ans_initGit := False\<rparr>)) cwd existsSync) = 0
          then [WriteFile (path_join (path_join cwd (ans_projectName result)) ''.gitignore'')
                  getGitignore]
          else [])"
    by (cases "before_git cwd result"; cases "snd (before_git cwd result)";
        auto simp: init_def scaffold_before_git)+
  have 3: "set (or_default [] (ans_features result)) \<subseteq> fst ` set FEATURES
        \<and> \<not> existsSync (path_join cwd (ans_projectName result))
      \<longrightarrow> (\<forall>c. WriteFile (path_join (path_join cwd (ans_projectName result)) ''.gitignore'') c
              \<in> set (fs_ops (init (Answered result) cwd existsSync))
            \<longleftrightarrow> ''deploy'' \<notin> set (or_default [] (ans_features result)) \<and> ans_initGit result
                \<and> c = ''# Dependencies\<newline>'' @
                        ''node_modules\<newline>'' @
                        ''.pnp\<newline>'' @
                        ''.pnp.js\<newline>'' @
                        ''\<newline>'' @
                        ''# Testing\<newline>'' @
                        ''coverage\<newline>'' @
                        ''\<newline>'' @
                        ''# Production\<newline>'' @
                        ''dist\<newline>'' @
                        ''.output\<newline>'' @
                        ''.vinxi\<newline>'' @
                        ''.nitro\<newline>'' @
                        ''\<newline>'' @
                        ''# Misc\<newline>'' @
                        ''.DS_Store\<newline>'' @
                        ''*.pem\<newline>'' @
                        ''.env\<newline>'' @
                        ''.env.local\<newline>'' @
                        ''.env.development.local\<newline>'' @
                        ''.env.test.local\<newline>'' @
                        ''.env.production.local\<newline>'' @
                        ''\<newline>'' @
                        ''# Debug\<newline>'' @
                        ''npm-debug.log*\<newline>'' @
                        ''yarn-debug.log*\<newline>'' @
                        ''yarn-error.log*\<newline>'' @
                        ''pnpm-debug.log*\<newline>'' @
                        ''\<newline>'' @
                        ''# IDE\<newline>'' @
                        ''.vscode\<newline>'' @
                        ''.idea\<newline>'' @
                        ''*.swp\<newline>'' @
                        ''*.swo\<newline>'' @
                        ''*~\<newline>'' @
                        ''\<newline>'' @
                        ''# TanStack\<newline>'' @
                        ''.tanstack\<newline>'' @
                        ''routeTree.gen.ts\<newline>'')
        \<and> (''deploy'' \<in> set (or_default [] (ans_features result))
            \<longrightarrow> init (Answered (result\<lparr>ans_initGit := True\<rparr>)) cwd existsSync
                  = init (Answered (result\<lparr>ans_initGit := False\<rparr>)) cwd existsSync
                \<and> exit_status (init (Answered (result\<lparr>ans_initGit := True\<rparr>)) cwd existsSync) = 1)
        \<and> (''deploy'' \<notin> set (or_default [] (ans_features result))
            \<longrightarrow> exit_status (init (Answered (result\<lparr>ans_initGit := True\<rparr>)) cwd existsSync) = 0
                \<and> fs_ops (init (Answered (result\<lparr>ans_initGit := True\<rparr>)) cwd existsSync)
                    = fs_ops (init (Answered (result\<lparr>ans_initGit := False\<rparr>)) cwd existsSync)
                      @ [WriteFile (path_join (path_join cwd (ans_projectName result)) ''.gitignore'')
                           (''# Dependencies\<newline>'' @
                            ''node_modules\<newline>'' @
                            ''.pnp\<newline>'' @
                            ''.pnp.js\<newline>'' @
                            ''\<newline>'' @
                            ''# Testing\<newline>'' @
                            ''coverage\<newline>'' @
                            ''\<newline>'' @
                            ''# Production\<newline>'' @
                            ''dist\<newline>'' @
                            ''.output\<newline>'' @
                            ''.vinxi\<newline>'' @
                            ''.nitro\<newline>'' @
                            ''\<newline>'' @
                            ''# Misc\<newline>'' @
                            ''.DS_Store\<newline>'' @
                            ''*.pem\<newline>'' @
                            ''.env\<newline>'' @
                            ''.env.local\<newline>'' @
                            ''.env.development.local\<newline>'' @
                            ''.env.test.local\<newline>'' @
                            ''.env.production.local\<newline>'' @
                            ''\<newline>'' @
                            ''# Debug\<newline>'' @
                            ''npm-debug.log*\<newline>'' @
                            ''yarn-debug.log*\<newline>'' @
                            ''yarn-error.log*\<newline>'' @
                            ''pnpm-debug.log*\<newline>'' @
                            ''\<newline>'' @
                            ''# IDE\<newline>'' @
                            ''.vscode\<newline>'' @
                            ''.idea\<newline>'' @
                            ''*.swp\<newline>'' @
                            ''*.swo\<newline>'' @
                            ''*~\<newline>'' @
                            ''\<newline>'' @
                            ''# TanStack\<newline>'' @
                            ''.tanstack\<newline>'' @
                            ''routeTree.gen.ts\<newline>'')])"
  proof (intro impI, elim conjE)
    assume v: "set (or_default [] (ans_features result)) \<subseteq> fst ` set FEATURES"
      and x: "\<not> existsSync (path_join cwd (ans_projectName result))"
    from v x have e: "exit_status (init (Answered (result\<lparr>ans_initGit := False\<rparr>)) cwd existsSync)
        = (if ''deploy'' \<in> set (or_default [] (ans_features result)) then 1 else 0)"
      using run_exit_status[where existsSync = existsSync and cwd = cwd
          and result = "result\<lparr>ans_initGit := False\<rparr>"]
      by simp
    have a: "(\<forall>c. WriteFile (path_join (path_join cwd (ans_projectName result)) ''.gitignore'') c
              \<in> set (fs_ops (init (Answered result) cwd existsSync))
            \<longleftrightarrow> ''deploy'' \<notin> set (or_default [] (ans_features result)) \<and> ans_initGit result
                \<and> c = ''# Dependencies\<newline>'' @
                        ''node_modules\<newline>'' @
                        ''.pnp\<newline>'' @
                        ''.pnp.js\<newline>'' @
                        ''\<newline>'' @
                        ''# Testing\<newline>'' @
                        ''coverage\<newline>'' @
                        ''\<newline>'' @
                        ''# Production\<newline>'' @
                        ''dist\<newline>'' @
                        ''.output\<newline>'' @
                        ''.vinxi\<newline>'' @
                        ''.nitro\<newline>'' @
                        ''\<newline>'' @
                        ''# Misc\<newline>'' @
                        ''.DS_Store\<newline>'' @
                        ''*.pem\<newline>'' @
                        ''.env\<newline>'' @
                        ''.env.local\<newline>'' @
                        ''.env.development.local\<newline>'' @
                        ''.env.test.local\<newline>'' @
                        ''.env.production.local\<newline>'' @
                        ''\<newline>'' @
                        ''# Debug\<newline>'' @
                        ''npm-debug.log*\<newline>'' @
                        ''yarn-debug.log*\<newline>'' @
                        ''yarn-error.log*\<newline>'' @
                        ''pnpm-debug.log*\<newline>'' @
                        ''\<newline>'' @
                        ''# IDE\<newline>'' @
                        ''.vscode\<newline>'' @
                        ''.idea\<newline>'' @
                        ''*.swp\<newline>'' @
                        ''*.swo\<newline>'' @
                        ''*~\<newline>'' @
                        ''\<newline>'' @
                        ''# TanStack\<newline>'' @
                        ''.tanstack\<newline>'' @
                        ''routeTree.gen.ts\<newline>'')"
      by (simp add: gitignore_write_in_run[where existsSync = existsSync, OF v x]
            getGitignore_def)
    have b: "(''deploy'' \<in> set (or_default [] (ans_features result))
            \<longrightarrow> init (Answered (result\<lparr>ans_initGit := True\<rparr>)) cwd existsSync
                  = init (Answered (result\<lparr>ans_initGit := False\<rparr>)) cwd existsSync
                \<and> exit_status (init (Answered (result\<lparr>ans_initGit := True\<rparr>)) cwd existsSync) = 1)"
    proof (intro impI conjI)
      assume d: "''deploy'' \<in> set (or_default [] (ans_features result))"
      with 1 e show s: "exit_status (init (Answered (result\<lparr>ans_initGit := True\<rparr>)) cwd existsSync) = 1"
        by simp
      from d e 2 have "fs_ops (init (Answered (result\<lparr>ans_initGit := True\<rparr>)) cwd existsSync)
          = fs_ops (init (Answered (result\<lparr>ans_initGit := False\<rparr>)) cwd existsSync)"
        by simp
      with 1 show "init (Answered (result\<lparr>ans_initGit := True\<rparr>)) cwd existsSync
          = init (Answered (result\<lparr>ans_initGit := False\<rparr>)) cwd existsSync"
        by (simp add: run.equality)
    qed
    have c: "(''deploy'' \<notin> set (or_default [] (ans_features result))
            \<longrightarrow> exit_status (init (Answered (result\<lparr>ans_initGit := True\<rparr>)) cwd existsSync) = 0
                \<and> fs_ops (init (Answered (result\<lparr>ans_initGit := True\<rparr>)) cwd existsSync)
                    = fs_ops (init (Answered (result\<lparr>ans_initGit := False\<rparr>)) cwd existsSync)
                      @ [WriteFile (path_join (path_join cwd (ans_projectName result)) ''.gitignore'')
                           (''# Dependencies\<newline>'' @
                            ''node_modules\<newline>'' @
                            ''.pnp\<newline>'' @
                            ''.pnp.js\<newline>'' @
                            ''\<newline>'' @
                            ''# Testing\<newline>'' @
                            ''coverage\<newline>'' @
                            ''\<newline>'' @
                            ''# Production\<newline>'' @
                            ''dist\<newline>'' @
                            ''.output\<newline>'' @
                            ''.vinxi\<newline>'' @
                            ''.nitro\<newline>'' @
                            ''\<newline>'' @
                            ''# Misc\<newline>'' @
                            ''.DS_Store\<newline>'' @
                            ''*.pem\<newline>'' @
                            ''.env\<newline>'' @
                            ''.env.local\<newline>'' @
                            ''.env.development.local\<newline>'' @
                            ''.env.test.local\<newline>'' @
                            ''.env.production.local\<newline>'' @
                            ''\<newline>'' @
                            ''# Debug\<newline>'' @
                            ''npm-debug.log*\<newline>'' @
                            ''yarn-debug.log*\<newline>'' @
                            ''yarn-error.log*\<newline>'' @
                            ''pnpm-debug.log*\<newline>'' @
                            ''\<newline>'' @
                            ''# IDE\<newline>'' @
                            ''.vscode\<newline>'' @
                            ''.idea\<newline>'' @
                            ''*.swp\<newline>'' @
                            ''*.swo\<newline>'' @
                            ''*~\<newline>'' @
                            ''\<newline>'' @
                            ''# TanStack\<newline>'' @
                            ''.tanstack\<newline>'' @
                            ''routeTree.gen.ts\<newline>'')])"
    proof (intro impI conjI)
      assume d: "''deploy'' \<notin> set (or_default [] (ans_features result))"
      with 1 e show "exit_status (init (Answered (result\<lparr>ans_initGit := True\<rparr>)) cwd existsSync) = 0"
        by simp
      from d e have "exit_status (init (Answered (result\<lparr>ans_initGit := False\<rparr>)) cwd existsSync) = 0"
        by simp
      with 2 show "fs_ops (init (Answered (result\<lparr>ans_initGit := True\<rparr>)) cwd existsSync)
           = fs_ops (init (Answered (result\<lparr>ans_initGit := False\<rparr>)) cwd existsSync)
             @ [WriteFile (path_join (path_join cwd (ans_projectName result)) ''.gitignore'')
                  (''# Dependencies\<newline>'' @
                   ''node_modules\<newline>'' @
                   ''.pnp\<newline>'' @
                   ''.pnp.js\<newline>'' @
                   ''\<newline>'' @
                   ''# Testing\<newline>'' @
                   ''coverage\<newline>'' @
                   ''\<newline>'' @
                   ''# Production\<newline>'' @
                   ''dist\<newline>'' @
                   ''.output\<newline>'' @
                   ''.vinxi\<newline>'' @
                   ''.nitro\<newline>'' @
                   ''\<newline>'' @
                   ''# Misc\<newline>'' @
                   ''.DS_Store\<newline>'' @
                   ''*.pem\<newline>'' @
                   ''.env\<newline>'' @
                   ''.env.local\<newline>'' @
                   ''.env.development.local\<newline>'' @
                   ''.env.test.local\<newline>'' @
                   ''.env.production.local\<newline>'' @
                   ''\<newline>'' @
                   ''# Debug\<newline>'' @
                   ''npm-debug.log*\<newline>'' @
                   ''yarn-debug.log*\<newline>'' @
                   ''yarn-error.log*\<newline>'' @
                   ''pnpm-debug.log*\<newline>'' @
                   ''\<newline>'' @
                   ''# IDE\<newline>'' @
                   ''.vscode\<newline>'' @
                   ''.idea\<newline>'' @
                   ''*.swp\<newline>'' @
                   ''*.swo\<newline>'' @
                   ''*~\<newline>'' @
                   ''\<newline>'' @
                   ''# TanStack\<newline>'' @
                   ''.tanstack\<newline>'' @
                   ''routeTree.gen.ts\<newline>'')]"
        by (simp add: getGitignore_def)
    qed
    from a b c show "(\<forall>c. WriteFile (path_join (path_join cwd (ans_projectName result)) ''.gitignore'') c
              \<in> set (fs_ops (init (Answered result) cwd existsSync))
            \<longleftrightarrow> ''deploy'' \<notin> set (or_default [] (ans_features result)) \<and> ans_initGit result
                \<and> c = ''# Dependencies\<newline>'' @
                        ''node_modules\<newline>'' @
                        ''.pnp\<newline>'' @
                        ''.pnp.js\<newline>'' @
                        ''\<newline>'' @
                        ''# Testing\<newline>'' @
                        ''coverage\<newline>'' @
                        ''\<newline>'' @
                        ''# Production\<newline>'' @
                        ''dist\<newline>'' @
                        ''.output\<newline>'' @
                        ''.vinxi\<newline>'' @
                        ''.nitro\<newline>'' @
                        ''\<newline>'' @
                        ''# Misc\<newline>'' @
                        ''.DS_Store\<newline>'' @
                        ''*.pem\<newline>'' @
                        ''.env\<newline>'' @
                        ''.env.local\<newline>'' @
                        ''.env.development.local\<newline>'' @
                        ''.env.test.local\<newline>'' @
                        ''.env.production.local\<newline>'' @
                        ''\<newline>'' @
                        ''# Debug\<newline>'' @
                        ''npm-debug.log*\<newline>'' @
                        ''yarn-debug.log*\<newline>'' @
                        ''yarn-error.log*\<newline>'' @
                        ''pnpm-debug.log*\<newline>'' @
                        ''\<newline>'' @
                        ''# IDE\<newline>'' @
                        ''.vscode\<newline>'' @
                        ''.idea\<newline>'' @
                        ''*.swp\<newline>'' @
                        ''*.swo\<newline>'' @
                        ''*~\<newline>'' @
                        ''\<newline>'' @
                        ''# TanStack\<newline>'' @
                        ''.tanstack\<newline>'' @
                        ''routeTree.gen.ts\<newline>'')
        \<and> (''deploy'' \<in> set (or_default [] (ans_features result))
            \<longrightarrow> init (Answered (result\<lparr>ans_initGit := True\<rparr>)) cwd existsSync
                  = init (Answered (result\<lparr>ans_initGit := False\<rparr>)) cwd existsSync
                \<and> exit_status (init (Answered (result\<lparr>ans_initGit := True\<rparr>)) cwd existsSync) = 1)
        \<and> (''deploy'' \<notin> set (or_default [] (ans_features result))
            \<longrightarrow> exit_status (init (Answered (result\<lparr>ans_initGit := True\<rparr>)) cwd existsSync) = 0
                \<and> fs_ops (init (Answered (result\<lparr>ans_initGit := True\<rparr>)) cwd existsSync)
                    = fs_ops (init (Answered (result\<lparr>ans_initGit := False\<rparr>)) cwd existsSync)
                      @ [WriteFile (path_join (path_join cwd (ans_projectName result)) ''.gitignore'')
                           (''# Dependencies\<newline>'' @
                            ''node_modules\<newline>'' @
                            ''.pnp\<newline>'' @
                            ''.pnp.js\<newline>'' @
                            ''\<newline>'' @
                            ''# Testing\<newline>'' @
                            ''coverage\<newline>'' @
                            ''\<newline>'' @
                            ''# Production\<newline>'' @
                            ''dist\<newline>'' @
                            ''.output\<newline>'' @
                            ''.vinxi\<newline>'' @
                            ''.nitro\<newline>'' @
                            ''\<newline>'' @
                            ''# Misc\<newline>'' @
                            ''.DS_Store\<newline>'' @
                            ''*.pem\<newline>'' @
                            ''.env\<newline>'' @
                            ''.env.local\<newline>'' @
                            ''.env.development.local\<newline>'' @
                            ''.env.test.local\<newline>'' @
                            ''.env.production.local\<newline>'' @
                            ''\<newline>'' @
                            ''# Debug\<newline>'' @
                            ''npm-debug.log*\<newline>'' @
                            ''yarn-debug.log*\<newline>'' @
                            ''yarn-error.log*\<newline>'' @
                            ''pnpm-debug.log*\<newline>'' @
                            ''\<newline>'' @
                            ''# IDE\<newline>'' @
                            ''.vscode\<newline>'' @
                            ''.idea\<newline>'' @
                            ''*.swp\<newline>'' @
                            ''*.swo\<newline>'' @
                            ''*~\<newline>'' @
                            ''\<newline>'' @
                            ''# TanStack\<newline>'' @
                            ''.tanstack\<newline>'' @
                            ''routeTree.gen.ts\<newline>'')])"
      by (intro conjI)
  qed
  from 1 2 3 show ?thesis by (intro conjI)
qed

theorem git_answer_lost_with_deploy_witness:
  "set (or_default [] (ans_features (demo_answers ''npm'' [''deploy''] True)))
     \<subseteq> fst ` set FEATURES
   \<and> \<not> fresh_disk (path_join ''/work''
          (ans_projectName (demo_answers ''npm'' [''deploy''] True)))
   \<and> init (Answered (demo_answers ''npm'' [''deploy''] True)) ''/work'' fresh_disk
       = init (Answered (demo_answers ''npm'' [''deploy''] False)) ''/work'' fresh_disk
   \<and> exit_status (init (Answered (demo_answers ''npm'' [''deploy''] True))
        ''/work'' fresh_disk) = 1
   \<and> WriteFile ''/work/demo/.gitignore'' getGitignore
       \<notin> set (fs_ops (init (Answered (demo_answers ''npm'' [''deploy''] True))
            ''/work'' fresh_disk))
   \<and> set (or_default [] (ans_features (demo_answers ''pnpm'' [''ui'', ''quality''] True)))
       \<subseteq> fst ` set FEATURES
   \<and> exit_status (init (Answered (demo_answers ''pnpm'' [''ui'', ''quality''] True))
        ''/work'' fresh_disk) = 0
   \<and> fs_ops (init (Answered (demo_answers ''pnpm'' [''ui'', ''quality''] True))
        ''/work'' fresh_disk)
     = fs_ops (init (Answered (demo_answers ''pnpm'' [''ui'', ''quality''] False))
        ''/work'' fresh_disk)
       @ [WriteFile ''/work/demo/.gitignore''
            (''# Dependencies\<newline>'' @
             ''node_modules\<newline>'' @
             ''.pnp\<newline>'' @
             ''.pnp.js\<newline>'' @
             ''\<newline>'' @
             ''# Testing\<newline>'' @
             ''coverage\<newline>'' @
             ''\<newline>'' @
             ''# Production\<newline>'' @
             ''dist\<newline>'' @
             ''.output\<newline>'' @
             ''.vinxi\<newline>'' @
             ''.nitro\<newline>'' @
             ''\<newline>'' @
             ''# Misc\<newline>'' @
             ''.DS_Store\<newline>'' @
             ''*.pem\<newline>'' @
             ''.env\<newline>'' @
             ''.env.local\<newline>'' @
             ''.env.development.local\<newline>'' @
             ''.env.test.local\<newline>'' @
             ''.env.production.local\<newline>'' @
             ''\<newline>'' @
             ''# Debug\<newline>'' @
             ''npm-debug.log*\<newline>'' @
             ''yarn-debug.log*\<newline>'' @
             ''yarn-error.log*\<newline>'' @
             ''pnpm-debug.log*\<newline>'' @
             ''\<newline>'' @
             ''# IDE\<newline>'' @
             ''.vscode\<newline>'' @
             ''.idea\<newline>'' @
             ''*.swp\<newline>'' @
             ''*.swo\<newline>'' @
             ''*~\<newline>'' @
             ''\<newline>'' @
             ''# TanStack\<newline>'' @
             ''.tanstack\<newline>'' @
             ''routeTree.gen.ts\<newline>'')]"
proof -
  have u: "(demo_answers pm fs g)\<lparr>ans_initGit := g'\<rparr> = demo_answers pm fs g'" for pm fs g g'
    by (simp add: demo_answers_def)
  have n: "path_join (path_join ''/work'' (ans_projectName (demo_answers pm fs g))) ''.gitignore''
      = ''/work/demo/.gitignore''" for pm fs g
    by (simp add: demo_answers_def path_join_def)
  have f: "ans_features (demo_answers pm fs g) = Some fs"
    "ans_initGit (demo_answers pm fs g) = g" for pm fs g
    by (simp_all add: demo_answers_def)
  have 1: "set (or_default [] (ans_features (demo_answers ''npm'' [''deploy''] True)))
     \<subseteq> fst ` set FEATURES"
    by (simp add: f or_default_def FEATURES_def)
  have 2: "\<not> fresh_disk (path_join ''/work''
          (ans_projectName (demo_answers ''npm'' [''deploy''] True)))"
    by (simp add: fresh_disk_def)
  have 3: "set (or_default [] (ans_features (demo_answers ''pnpm'' [''ui'', ''quality''] True)))
       \<subseteq> fst ` set FEATURES"
    by (simp add: f or_default_def FEATURES_def)
  have 4: "\<not> fresh_disk (path_join ''/work''
          (ans_projectName (demo_answers ''pnpm'' [''ui'', ''quality''] True)))"
    by (simp add: fresh_disk_def)
  have d: "''deploy'' \<in> set (or_default [] (ans_features (demo_answers ''npm'' [''deploy''] True)))"
    "''deploy'' \<notin> set (or_default [] (ans_features
        (demo_answers ''pnpm'' [''ui'', ''quality''] True)))"
    by (simp_all add: f or_default_def)
  from git_answer_lost_with_deploy[of "demo_answers ''npm'' [''deploy''] True" "''/work''"
      fresh_disk] 1 2 d(1)
  have 5: "init (Answered (demo_answers ''npm'' [''deploy''] True)) ''/work'' fresh_disk
       = init (Answered (demo_answers ''npm'' [''deploy''] False)) ''/work'' fresh_disk"
    and 6: "exit_status (init (Answered (demo_answers ''npm'' [''deploy''] True))
        ''/work'' fresh_disk) = 1"
    and 7: "WriteFile ''/work/demo/.gitignore'' getGitignore
       \<notin> set (fs_ops (init (Answered (demo_answers ''npm'' [''deploy''] True))
            ''/work'' fresh_disk))"
    unfolding u n by blast+
  from git_answer_lost_with_deploy[of "demo_answers ''pnpm'' [''ui'', ''quality''] True"
      "''/work''" fresh_disk] 3 4 d(2)
  have 8: "exit_status (init (Answered (demo_answers ''pnpm'' [''ui'', ''quality''] True))
        ''/work'' fresh_disk) = 0"
    and 9: "fs_ops (init (Answered (demo_answers ''pnpm'' [''ui'', ''quality''] True))
        ''/work'' fresh_disk)
     = fs_ops (init (Answered (demo_answers ''pnpm'' [''ui'', ''quality''] False))
        ''/work'' fresh_disk)
       @ [WriteFile ''/work/demo/.gitignore''
            (''# Dependencies\<newline>'' @
             ''node_modules\<newline>'' @
             ''.pnp\<newline>'' @
             ''.pnp.js\<newline>'' @
             ''\<newline>'' @
             ''# Testing\<newline>'' @
             ''coverage\<newline>'' @
             ''\<newline>'' @
             ''# Production\<newline>'' @
             ''dist\<newline>'' @
             ''.output\<newline>'' @
             ''.vinxi\<newline>'' @
             ''.nitro\<newline>'' @
             ''\<newline>'' @
             ''# Misc\<newline>'' @
             ''.DS_Store\<newline>'' @
             ''*.pem\<newline>'' @
             ''.env\<newline>'' @
             ''.env.local\<newline>'' @
             ''.env.development.local\<newline>'' @
             ''.env.test.local\<newline>'' @
             ''.env.production.local\<newline>'' @
             ''\<newline>'' @
             ''# Debug\<newline>'' @
             ''npm-debug.log*\<newline>'' @
             ''yarn-debug.log*\<newline>'' @
             ''yarn-error.log*\<newline>'' @
             ''pnpm-debug.log*\<newline>'' @
             ''\<newline>'' @
             ''# IDE\<newline>'' @
             ''.vscode\<newline>'' @
             ''.idea\<newline>'' @
             ''*.swp\<newline>'' @
             ''*.swo\<newline>'' @
             ''*~\<newline>'' @
             ''\<newline>'' @
             ''# TanStack\<newline>'' @
             ''.tanstack\<newline>'' @
             ''routeTree.gen.ts\<newline>'')]"
    unfolding u n by blast+
  from 1 2 5 6 7 3 8 9 show ?thesis by (intro conjI)
qed

end
